theory Spec2Isabelle
  imports Main
begin

section \<open>Strings as the crawler reads them\<close>

text \<open>
  JavaScript strings are modelled as \<^typ>\<open>string\<close>; a character stands for one code unit.
  \<open>String.prototype.trim\<close> removes white space and line terminators at both ends;
  \<open>Boolean(s)\<close> of a string is \<open>s \<noteq> ''''\<close>.
\<close>

definition is_space :: "char \<Rightarrow> bool" where
  "is_space c = (c \<in> set [CHR '' '', CHR 0x09, CHR 0x0A, CHR 0x0B, CHR 0x0C, CHR 0x0D, CHR 0xA0])"

definition trim :: "string \<Rightarrow> string" where
  "trim s = rev (dropWhile is_space (rev (dropWhile is_space s)))"

text \<open>\<open>s || undefined\<close>: the empty string is falsy.\<close>

definition nonempty :: "string \<Rightarrow> string option" where
  "nonempty s = (if s = [] then None else Some s)"

text \<open>An optional string-valued configuration field tested with \<open>if (field)\<close>: absent and
  empty both count as not configured.\<close>

definition configured :: "string option \<Rightarrow> string option" where
  "configured f = (case f of None \<Rightarrow> None | Some s \<Rightarrow> nonempty s)"

definition startsWith :: "string \<Rightarrow> string \<Rightarrow> bool" where
  "startsWith s p = (take (length p) s = p)"

section \<open>Regular expressions\<close>

text \<open>
  A \<open>RegExp\<close> object is its matcher and its \<open>g\<close> and \<open>y\<close> flags. \<open>re_exec r i s\<close> is
  what the matcher finds in \<open>s\<close> when matching starts at index \<open>i\<close> (the leftmost match from
  \<open>i\<close> on; for a sticky pattern the match at \<open>i\<close>): the index at which the match ends, and
  the match array, whose entry 0 is the matched text and whose entry \<open>k\<close> is capture group
  \<open>k\<close> (\<open>None\<close> for a group that did not take part). The \<open>lastIndex\<close> of the object is
  state: the operations take it and return its new value.
\<close>

record RegExp =
  re_exec :: "nat \<Rightarrow> string \<Rightarrow> (nat \<times> string option list) option"
  re_global :: bool
  re_sticky :: bool

definition uses_lastIndex :: "RegExp \<Rightarrow> bool" where
  "uses_lastIndex r = (re_global r \<or> re_sticky r)"

text \<open>
  \<open>RegExpBuiltinExec\<close>: with \<open>g\<close> or \<open>y\<close> the match starts at \<open>lastIndex\<close>, a match sets
  \<open>lastIndex\<close> to its end and a failure sets it to 0; without them the match starts at 0 and
  \<open>lastIndex\<close> is left alone. The result is the match array, \<open>None\<close> for \<open>null\<close>.
\<close>

definition RegExp_exec :: "RegExp \<Rightarrow> nat \<Rightarrow> string \<Rightarrow> string option list option \<times> nat" where
  "RegExp_exec r lastIndex s =
     (if uses_lastIndex r then
        (if length s < lastIndex then (None, 0)
         else case re_exec r lastIndex s of
                None \<Rightarrow> (None, 0)
              | Some (e, m) \<Rightarrow> (Some m, e))
      else (map_option snd (re_exec r 0 s), lastIndex))"

text \<open>\<open>r.test(s)\<close>\<close>

definition RegExp_test :: "RegExp \<Rightarrow> nat \<Rightarrow> string \<Rightarrow> bool \<times> nat" where
  "RegExp_test r lastIndex s =
     (case RegExp_exec r lastIndex s of (m, i) \<Rightarrow> (m \<noteq> None, i))"

text \<open>
  \<open>s.match(r)\<close>. Without \<open>g\<close> it is \<open>RegExp_exec\<close>. With \<open>g\<close> it sets \<open>lastIndex\<close> to 0
  and collects the matched text of every match, stepping over an empty match; the result is
  the array of these texts, \<open>null\<close> when there is none, and \<open>lastIndex\<close> ends at 0. A match
  ends where it starts or later, so there are at most \<open>length s + 1\<close> matches: the loop is
  given that many rounds.
\<close>

definition matched_text :: "string option list \<Rightarrow> string" where
  "matched_text m = (case m of Some w # _ \<Rightarrow> w | _ \<Rightarrow> [])"

fun match_all :: "RegExp \<Rightarrow> nat \<Rightarrow> nat \<Rightarrow> string \<Rightarrow> string list" where
  "match_all r 0 lastIndex s = []"
| "match_all r (Suc rounds) lastIndex s =
     (if length s < lastIndex then []
      else case re_exec r lastIndex s of
             None \<Rightarrow> []
           | Some (e, m) \<Rightarrow>
               matched_text m
                 # match_all r rounds (if matched_text m = [] then Suc e else e) s)"

definition String_match :: "string \<Rightarrow> RegExp \<Rightarrow> nat \<Rightarrow> string option list option \<times> nat" where
  "String_match s r lastIndex =
     (if re_global r then
        (case match_all r (Suc (length s)) 0 s of
           [] \<Rightarrow> (None, 0)
         | ms \<Rightarrow> (Some (map Some ms), 0))
      else RegExp_exec r lastIndex s)"

text \<open>\<open>m?.[1]\<close> of a match result, with \<open>undefined\<close> as \<open>None\<close>.\<close>

definition capture1 :: "string option list option \<Rightarrow> string option" where
  "capture1 result = (case result of None \<Rightarrow> None
                      | Some m \<Rightarrow> (if 1 < length m then m ! 1 else None))"

text \<open>
  \<open>loadConfig\<close> compiles the patterns of the \<open>patterns\<close> bundle only, and keeps their
  flags. The patterns of parameter and example descriptors reach the crawler as strings: each
  use compiles them anew (\<open>asRegExp\<close> on a string, \<open>match\<close> on a string), without flags, so
  nothing is remembered between two uses. Such a pattern is its matcher on the whole text:
  \<open>s.match(p)\<close> is \<open>None\<close> for \<open>null\<close>, otherwise the match array.
\<close>

type_synonym regexp = "string \<Rightarrow> string option list option"

definition asRegExp :: "regexp \<Rightarrow> regexp" where
  "asRegExp pattern = pattern"

definition test :: "regexp \<Rightarrow> string \<Rightarrow> bool" where
  "test r s = (r s \<noteq> None)"

text \<open>\<open>s.match(r)?.[1]\<close>, with \<open>undefined\<close> as \<open>None\<close>.\<close>

definition group1 :: "regexp \<Rightarrow> string \<Rightarrow> string option" where
  "group1 r s = (case r s of None \<Rightarrow> None
                 | Some m \<Rightarrow> (if 1 < length m then m ! 1 else None))"

text \<open>A value used as a condition or on the left of \<open>||\<close>: \<open>undefined\<close> and \<open>''''\<close> are falsy.\<close>

definition truthy :: "string option \<Rightarrow> string option" where
  "truthy v = (case v of None \<Rightarrow> None | Some s \<Rightarrow> nonempty s)"

section \<open>The parsed page\<close>

text \<open>
  The HTML parser and the CSS selector engine are a library. A page is seen through three
  queries on nodes of an arbitrary type \<open>'n\<close>: the descendants of a node that match a selector,
  in document order; the text of a node with its descendants; an attribute of a node.
  A selection (a Cheerio object) is the list of its nodes.
\<close>

record 'n dom =
  dom_find :: "string \<Rightarrow> 'n \<Rightarrow> 'n list"
  dom_text :: "'n \<Rightarrow> string"
  dom_attr :: "string \<Rightarrow> 'n \<Rightarrow> string option"

definition find_in :: "'n dom \<Rightarrow> string \<Rightarrow> 'n list \<Rightarrow> 'n list" where
  "find_in D sel ns = concat (map (dom_find D sel) ns)"

definition text_of :: "'n dom \<Rightarrow> 'n list \<Rightarrow> string" where
  "text_of D ns = concat (map (dom_text D) ns)"

definition first :: "'n list \<Rightarrow> 'n list" where
  "first ns = take 1 ns"

definition attr_of :: "'n dom \<Rightarrow> string \<Rightarrow> 'n list \<Rightarrow> string option" where
  "attr_of D a ns = (case ns of [] \<Rightarrow> None | n # _ \<Rightarrow> dom_attr D a n)"

section \<open>Configuration (types.ts)\<close>

record ParameterConfig =
  pc_selector :: string
  pc_nameSelector :: "string option"
  pc_typeSelector :: "string option"
  pc_descriptionSelector :: "string option"
  pc_defaultSelector :: "string option"
  pc_optionalPattern :: "regexp option"
  pc_namePattern :: "regexp option"
  pc_typePattern :: "regexp option"
  pc_defaultPattern :: "regexp option"
  pc_restPattern :: "regexp option"

datatype param_descriptor = PString string | PConfig ParameterConfig

record ExampleConfig =
  ec_selector :: string
  ec_language :: "string option"
  ec_languageAttr :: "string option"
  ec_languageClass :: "regexp option"

datatype example_descriptor = EString string | EConfig ExampleConfig

record MethodSelectors =
  ms_container :: string
  ms_name :: string
  ms_description :: "string list"
  ms_signature :: "string option"
  ms_isStatic :: "string option"
  ms_isPrivate :: "string option"
  ms_decorators :: "string option"

record PropertySelectors =
  ps_container :: string
  ps_name :: string
  ps_description :: "string list option"
  ps_type :: "string option"
  ps_defaultValue :: "string option"
  ps_isStatic :: "string option"
  ps_isPrivate :: "string option"
  ps_decorators :: "string option"

record Selectors =
  navigationLinks :: string
  subNavigationLinks :: "string option"
  contentLinks :: string
  sel_title :: string
  sel_name :: string
  sel_id :: "string option"
  sel_description :: "string list"
  sel_examples :: "example_descriptor list"
  sel_parameters :: "param_descriptor list option"
  sel_returns :: "string option"
  sel_type :: "string option"
  sel_namespace :: "string option"
  sel_signature :: "string option"
  sel_methods :: "MethodSelectors option"
  sel_properties :: "PropertySelectors option"

text \<open>The patterns of the bundle are \<open>RegExp\<close> objects. One given as a string is compiled at
  each use: it is an object without flags, whose \<open>lastIndex\<close> is never read.\<close>

record Patterns =
  isClass :: RegExp
  isMethod :: RegExp
  isFunction :: RegExp
  isModule :: RegExp
  isProperty :: RegExp
  nameExtract :: RegExp
  idExtract :: "RegExp option"
  signatureClean :: "RegExp option"

text \<open>The \<open>lastIndex\<close> of each of these objects.\<close>

record LastIndex =
  li_isClass :: nat
  li_isMethod :: nat
  li_isFunction :: nat
  li_isModule :: nat
  li_isProperty :: nat
  li_nameExtract :: nat
  li_idExtract :: nat
  li_signatureClean :: nat

record DocSource =
  src_name :: string
  baseUrl :: string
  src_version :: "string option"
  indexUrl :: string
  selectors :: Selectors
  patterns :: Patterns
  defaultLanguage :: string

subsection \<open>loadConfig\<close>

text \<open>
  \<open>loadConfig\<close> replaces every pattern of the bundle that the configuration file gives as a
  string by \<open>new RegExp(source, flags)\<close>. A string that starts with \<open>/\<close> gives the source
  between its first and its last \<open>/\<close>, and what follows the last \<open>/\<close> as flags when there is a
  second \<open>/\<close>; any other string is the source, without flags. \<open>lastIndexOf c s\<close> is meant for
  a string that contains \<open>c\<close>. The engine is the matcher that \<open>new RegExp\<close> builds for a source
  and flags, \<open>None\<close> when it throws; the object keeps the flags.
\<close>

definition lastIndexOf :: "char \<Rightarrow> string \<Rightarrow> nat" where
  "lastIndexOf c s = length s - Suc (length (takeWhile (\<lambda>x. x \<noteq> c) (rev s)))"

definition pattern_flags :: "string \<Rightarrow> string" where
  "pattern_flags pattern =
     (if startsWith pattern ''/'' \<and> CHR ''/'' \<in> set (drop 1 pattern)
      then drop (lastIndexOf CHR ''/'' pattern + 1) pattern
      else [])"

definition pattern_source :: "string \<Rightarrow> string" where
  "pattern_source pattern =
     (if startsWith pattern ''/''
      then take (lastIndexOf CHR ''/'' pattern - 1) (drop 1 pattern)
      else pattern)"

type_synonym engine =
  "string \<Rightarrow> string \<Rightarrow> (nat \<Rightarrow> string \<Rightarrow> (nat \<times> string option list) option) option"

definition new_RegExp :: "engine \<Rightarrow> string \<Rightarrow> string \<Rightarrow> RegExp option" where
  "new_RegExp engine source flags =
     (case engine source flags of
        None \<Rightarrow> None
      | Some matcher \<Rightarrow>
          Some \<lparr>re_exec = matcher, re_global = (CHR ''g'' \<in> set flags),
                re_sticky = (CHR ''y'' \<in> set flags)\<rparr>)"

definition loadConfig_pattern :: "engine \<Rightarrow> string \<Rightarrow> RegExp option" where
  "loadConfig_pattern engine pattern =
     new_RegExp engine (pattern_source pattern) (pattern_flags pattern)"

section \<open>Output records (types.ts)\<close>

datatype EntryType = KClass | KMethod | KFunction | KModule | KProperty | KInterface

record Parameter =
  p_name :: string
  p_type :: "string option"
  p_description :: string
  p_optional :: bool
  p_default :: "string option"
  p_isRest :: bool

record ReturnType =
  r_type :: "string option"
  r_description :: "string option"

record Example =
  x_code :: string
  x_language :: string

record Method =
  m_name :: string
  m_description :: "string list"
  m_signature :: "string option"
  m_parameters :: "Parameter list option"
  m_returns :: "ReturnType option"
  m_isStatic :: "bool option"
  m_isPrivate :: "bool option"
  m_decorators :: "string list option"

record Property =
  q_name :: string
  q_description :: "string list"
  q_type :: "string option"
  q_defaultValue :: "string option"
  q_isStatic :: "bool option"
  q_isPrivate :: "bool option"
  q_decorators :: "string list option"

record EntrySource =
  es_name :: string
  es_url :: string
  es_normalizedUrl :: string
  es_version :: "string option"

text \<open>
  \<open>DocEntry\<close>. A field that the interface declares optional is an option; \<open>title\<close> is
  declared \<open>string\<close>, but \<open>extractEntry\<close> stores the element 0 of an array that may be
  empty, so its value may be \<open>undefined\<close> and the model keeps an option for it.
\<close>

record DocEntry =
  e_id :: string
  e_type :: EntryType
  e_namespace :: "string list"
  e_name :: string
  e_title :: "string option"
  e_description :: "string list"
  e_signature :: "string option"
  e_source :: EntrySource
  e_parameters :: "Parameter list option"
  e_returns :: "ReturnType option"
  e_examples :: "Example list"
  e_parent :: "string option"
  e_children :: "string list option"
  e_scrapedAt :: string
  e_methods :: "Method list option"
  e_properties :: "Property list option"

section \<open>URLs\<close>

text \<open>
  The URL parser is a library too. A parsed URL is kept as the serialisation of everything
  before the fragment, and the fragment (\<open>None\<close> when there is none). \<open>new URL(s)\<close> and
  \<open>new URL(href, base)\<close> are parameters; both throw a \<open>TypeError\<close> on what they do not accept,
  which is \<open>None\<close> here. \<open>toString\<close> and the setter of \<open>hash\<close> with the empty string are
  as the URL standard defines them on that record.
\<close>

record url =
  u_base :: string
  u_fragment :: "string option"

record url_api =
  url_parse :: "string \<Rightarrow> url option"
  url_resolve :: "string \<Rightarrow> string \<Rightarrow> url option"

definition toString :: "url \<Rightarrow> string" where
  "toString u = u_base u @ (case u_fragment u of None \<Rightarrow> [] | Some f \<Rightarrow> CHR ''#'' # f)"

definition clear_hash :: "url \<Rightarrow> url" where
  "clear_hash u = u\<lparr>u_fragment := None\<rparr>"

datatype error =
    InvalidURL string
  | IndexFetchFailed string
  | CheckpointUnreadable string

definition normalizeUrl :: "url_api \<Rightarrow> string \<Rightarrow> error + string" where
  "normalizeUrl U u =
     (case url_parse U u of
        None \<Rightarrow> Inl (InvalidURL u)
      | Some parsed \<Rightarrow> Inr (toString (clear_hash parsed)))"

text \<open>\<open>new URL(href, base).toString()\<close>\<close>

definition resolve :: "url_api \<Rightarrow> string \<Rightarrow> string \<Rightarrow> error + string" where
  "resolve U href base =
     (case url_resolve U href base of
        None \<Rightarrow> Inl (InvalidURL href)
      | Some u \<Rightarrow> Inr (toString u))"

section \<open>The extraction engine (class DocCrawler)\<close>

subsection \<open>determineType\<close>

text \<open>\<open>asRegExp\<close> returns a \<open>RegExp\<close> object as it is, so every call tests the same five
  objects and moves their \<open>lastIndex\<close>.\<close>

definition determineType ::
  "'n dom \<Rightarrow> DocSource \<Rightarrow> LastIndex \<Rightarrow> 'n list \<Rightarrow> EntryType option \<times> LastIndex" where
  "determineType D source li el =
     (let text = text_of D el; pats = patterns source in
      case RegExp_test (isClass pats) (li_isClass li) text of
        (True, i) \<Rightarrow> (Some KClass, li\<lparr>li_isClass := i\<rparr>)
      | (False, i) \<Rightarrow>
     (let li1 = li\<lparr>li_isClass := i\<rparr> in
      case RegExp_test (isMethod pats) (li_isMethod li1) text of
        (True, i) \<Rightarrow> (Some KMethod, li1\<lparr>li_isMethod := i\<rparr>)
      | (False, i) \<Rightarrow>
     (let li2 = li1\<lparr>li_isMethod := i\<rparr> in
      case RegExp_test (isFunction pats) (li_isFunction li2) text of
        (True, i) \<Rightarrow> (Some KFunction, li2\<lparr>li_isFunction := i\<rparr>)
      | (False, i) \<Rightarrow>
     (let li3 = li2\<lparr>li_isFunction := i\<rparr> in
      case RegExp_test (isModule pats) (li_isModule li3) text of
        (True, i) \<Rightarrow> (Some KModule, li3\<lparr>li_isModule := i\<rparr>)
      | (False, i) \<Rightarrow>
     (let li4 = li3\<lparr>li_isModule := i\<rparr> in
      case RegExp_test (isProperty pats) (li_isProperty li4) text of
        (True, i) \<Rightarrow> (Some KProperty, li4\<lparr>li_isProperty := i\<rparr>)
      | (False, i) \<Rightarrow> (None, li4\<lparr>li_isProperty := i\<rparr>))))))"

subsection \<open>extractText\<close>

text \<open>The argument \<open>selector: string | string[]\<close>.\<close>

datatype selector_arg = One string | Many "string list"

definition extractText :: "'n dom \<Rightarrow> selector_arg \<Rightarrow> 'n list \<Rightarrow> string list" where
  "extractText D selector context =
     (let sels = (case selector of One s \<Rightarrow> [s] | Many ss \<Rightarrow> ss) in
      concat (map (\<lambda>sel. filter (\<lambda>t. t \<noteq> [])
                               (map (\<lambda>el. trim (dom_text D el)) (find_in D sel context)))
                  sels))"

subsection \<open>extractExamples\<close>

text \<open>\<open>s.split(/\s+/)\<close>: the pieces between maximal runs of white space.\<close>

function split_ws_from :: "string \<Rightarrow> string \<Rightarrow> string list" where
  "split_ws_from acc [] = [rev acc]"
| "split_ws_from acc (c # cs) =
     (if is_space c then rev acc # split_ws_from [] (dropWhile is_space cs)
      else split_ws_from (c # acc) cs)"
  by pat_completeness auto
termination
  by (relation "measure (\<lambda>(acc, s). length s)")
     (auto simp: le_imp_less_Suc length_dropWhile_le)

definition split_ws :: "string \<Rightarrow> string list" where
  "split_ws s = split_ws_from [] s"

text \<open>The first class whose match has a non-empty group 1 gives the language.\<close>

fun language_of_classes :: "regexp \<Rightarrow> string list \<Rightarrow> string \<Rightarrow> string" where
  "language_of_classes r [] language = language"
| "language_of_classes r (cls # rest) language =
     (case truthy (group1 r cls) of
        Some g \<Rightarrow> g
      | None \<Rightarrow> language_of_classes r rest language)"

definition example_of :: "'n dom \<Rightarrow> DocSource \<Rightarrow> ExampleConfig \<Rightarrow> 'n \<Rightarrow> Example" where
  "example_of D source sel el =
     (let language0 = (case configured (ec_language sel) of
                         Some l \<Rightarrow> l | None \<Rightarrow> defaultLanguage source);
          language1 = (case configured (ec_languageAttr sel) of
                         None \<Rightarrow> language0
                       | Some a \<Rightarrow> (case truthy (dom_attr D a el) of
                                      Some attrLang \<Rightarrow> attrLang | None \<Rightarrow> language0));
          language2 = (case ec_languageClass sel of
                         None \<Rightarrow> language1
                       | Some r \<Rightarrow>
                           (let classes = (case dom_attr D ''class'' el of
                                             Some c \<Rightarrow> split_ws c | None \<Rightarrow> [])
                            in language_of_classes r classes language1))
      in \<lparr>x_code = trim (dom_text D el), x_language = language2\<rparr>)"

definition extractExamples :: "'n dom \<Rightarrow> DocSource \<Rightarrow> 'n list \<Rightarrow> Example list" where
  "extractExamples D source context =
     concat (map (\<lambda>selector.
        case selector of
          EString s \<Rightarrow>
            map (\<lambda>el. \<lparr>x_code = trim (dom_text D el), x_language = defaultLanguage source\<rparr>)
                (find_in D s context)
        | EConfig sel \<Rightarrow>
            map (example_of D source sel) (find_in D (ec_selector sel) context))
       (sel_examples (selectors source)))"

subsection \<open>extractParameters\<close>

text \<open>\<open>name.replace(/[=?].*$/, ...)\<close> with the empty string: cut at the first \<open>=\<close> or \<open>?\<close>
  that no line terminator follows (\<open>.\<close> does not match one, and \<open>$\<close> is the end of the
  string).\<close>

definition is_line_terminator :: "char \<Rightarrow> bool" where
  "is_line_terminator c = (c = CHR 0x0A \<or> c = CHR 0x0D)"

fun strip_markers :: "string \<Rightarrow> string" where
  "strip_markers [] = []"
| "strip_markers (c # cs) =
     (if (c = CHR ''='' \<or> c = CHR ''?'') \<and> \<not> list_ex is_line_terminator cs then []
      else c # strip_markers cs)"

text \<open>The callback of \<open>each\<close> for a bare selector: a parameter, or nothing for an empty name.\<close>

definition simple_parameter :: "'n dom \<Rightarrow> 'n \<Rightarrow> Parameter option" where
  "simple_parameter D el =
     (let name = trim (dom_text D el) in
      if name \<noteq> [] then
        Some \<lparr>p_name = name, p_type = None, p_description = [], p_optional = False,
              p_default = None, p_isRest = startsWith name ''*''\<rparr>
      else None)"

text \<open>The name on which \<open>restPattern\<close> and \<open>optionalPattern\<close> are tested: the text selected by
  \<open>nameSelector\<close> (or of the whole element), then group 1 of \<open>namePattern\<close>; \<open>None\<close> is the
  early \<open>return\<close> of the callback.\<close>

definition raw_name :: "'n dom \<Rightarrow> ParameterConfig \<Rightarrow> 'n \<Rightarrow> string option" where
  "raw_name D paramConfig el =
     (let name = (case configured (pc_nameSelector paramConfig) of
                    Some ns \<Rightarrow> trim (text_of D (dom_find D ns el))
                  | None \<Rightarrow> trim (dom_text D el))
      in case pc_namePattern paramConfig of
           None \<Rightarrow> Some name
         | Some np \<Rightarrow> truthy (group1 np name))"

definition default_value :: "'n dom \<Rightarrow> ParameterConfig \<Rightarrow> 'n \<Rightarrow> string option" where
  "default_value D paramConfig el =
     (let defaultValue = (case configured (pc_defaultSelector paramConfig) of
                            Some ds \<Rightarrow> nonempty (trim (text_of D (dom_find D ds el)))
                          | None \<Rightarrow> None)
      in case (truthy defaultValue, pc_defaultPattern paramConfig) of
           (Some d, Some dp) \<Rightarrow> (case truthy (group1 dp d) of Some g \<Rightarrow> Some g | None \<Rightarrow> Some d)
         | _ \<Rightarrow> defaultValue)"

definition param_type :: "'n dom \<Rightarrow> ParameterConfig \<Rightarrow> 'n \<Rightarrow> string option" where
  "param_type D paramConfig el =
     (case configured (pc_typeSelector paramConfig) of
        None \<Rightarrow> None
      | Some ts \<Rightarrow>
          (let type = nonempty (trim (text_of D (dom_find D ts el)))
           in case (truthy type, pc_typePattern paramConfig) of
                (Some t, Some tp) \<Rightarrow> (case truthy (group1 tp t) of Some g \<Rightarrow> Some g | None \<Rightarrow> Some t)
              | _ \<Rightarrow> type))"

definition complex_parameter :: "'n dom \<Rightarrow> ParameterConfig \<Rightarrow> 'n \<Rightarrow> Parameter option" where
  "complex_parameter D paramConfig el =
     (case raw_name D paramConfig el of
        None \<Rightarrow> None
      | Some name \<Rightarrow>
          (let isRest = (case pc_restPattern paramConfig of
                           Some rp \<Rightarrow> test (asRegExp rp) name
                         | None \<Rightarrow> startsWith name ''*'');
               type = param_type D paramConfig el;
               defaultValue = default_value D paramConfig el;
               description = (case configured (pc_descriptionSelector paramConfig) of
                                Some ds \<Rightarrow> trim (text_of D (dom_find D ds el))
                              | None \<Rightarrow> []);
               optional0 = (truthy defaultValue \<noteq> None);
               optional = (case pc_optionalPattern paramConfig of
                             Some op \<Rightarrow> optional0 \<or> test (asRegExp op) name
                           | None \<Rightarrow> optional0);
               name1 = trim (strip_markers name);
               name2 = (if isRest then dropWhile (\<lambda>c. c = CHR ''*'') name1 else name1)
           in if name2 \<noteq> [] then
                Some \<lparr>p_name = name2, p_type = type, p_description = description,
                      p_optional = optional, p_default = defaultValue, p_isRest = isRest\<rparr>
              else None))"

text \<open>The parameters one descriptor pushes, for the elements it selects under the signature.\<close>

definition descriptor_parameters :: "'n dom \<Rightarrow> 'n list \<Rightarrow> param_descriptor \<Rightarrow> Parameter list" where
  "descriptor_parameters D firstSig paramConfig =
     (case paramConfig of
        PString s \<Rightarrow> List.map_filter (simple_parameter D) (find_in D s firstSig)
      | PConfig pc \<Rightarrow> List.map_filter (complex_parameter D pc) (find_in D (pc_selector pc) firstSig))"

definition extractParameters :: "'n dom \<Rightarrow> DocSource \<Rightarrow> 'n list \<Rightarrow> Parameter list" where
  "extractParameters D source context =
     (case sel_parameters (selectors source) of
        None \<Rightarrow> []
      | Some descriptors \<Rightarrow>
          (let firstSig = first (find_in D ''dt.sig'' context) in
           if firstSig = [] then []
           else concat (map (descriptor_parameters D firstSig) descriptors)))"

subsection \<open>extractReturns, extractMethods, extractProperties\<close>

definition extractReturns :: "'n dom \<Rightarrow> DocSource \<Rightarrow> 'n list \<Rightarrow> ReturnType option" where
  "extractReturns D source context =
     (case configured (sel_returns (selectors source)) of
        None \<Rightarrow> None
      | Some rs \<Rightarrow>
          (let returnText = trim (text_of D (first (find_in D rs context))) in
           if returnText = [] then None
           else Some \<lparr>r_type = Some returnText, r_description = None\<rparr>))"

text \<open>\<open>sel.field ? $x.find(sel.field).length > 0 : undefined\<close>\<close>

definition presence :: "'n dom \<Rightarrow> string option \<Rightarrow> 'n \<Rightarrow> bool option" where
  "presence D field el =
     (case configured field of None \<Rightarrow> None | Some s \<Rightarrow> Some (dom_find D s el \<noteq> []))"

text \<open>\<open>sel.field ? $x.find(sel.field).text().trim() : undefined\<close>\<close>

definition field_text :: "'n dom \<Rightarrow> string option \<Rightarrow> 'n \<Rightarrow> string option" where
  "field_text D field el =
     (case configured field of None \<Rightarrow> None | Some s \<Rightarrow> Some (trim (text_of D (dom_find D s el))))"

definition decorators_of :: "'n dom \<Rightarrow> string option \<Rightarrow> 'n \<Rightarrow> string list option" where
  "decorators_of D field el =
     (case configured field of
        None \<Rightarrow> None
      | Some s \<Rightarrow> Some (filter (\<lambda>t. t \<noteq> []) (map (\<lambda>d. trim (dom_text D d)) (dom_find D s el))))"

definition method_of :: "'n dom \<Rightarrow> DocSource \<Rightarrow> MethodSelectors \<Rightarrow> 'n \<Rightarrow> Method option" where
  "method_of D source sel el =
     (let name = trim (text_of D (dom_find D (ms_name sel) el)) in
      if name \<noteq> [] then
        Some \<lparr>m_name = name,
              m_description = extractText D (Many (ms_description sel)) [el],
              m_signature = field_text D (ms_signature sel) el,
              m_parameters =
                (case sel_parameters (selectors source) of
                   None \<Rightarrow> None
                 | Some _ \<Rightarrow> (let parameters = extractParameters D source [el] in
                              if parameters \<noteq> [] then Some parameters else None)),
              m_returns = extractReturns D source [el],
              m_isStatic = presence D (ms_isStatic sel) el,
              m_isPrivate = presence D (ms_isPrivate sel) el,
              m_decorators = decorators_of D (ms_decorators sel) el\<rparr>
      else None)"

definition extractMethods :: "'n dom \<Rightarrow> DocSource \<Rightarrow> 'n list \<Rightarrow> Method list" where
  "extractMethods D source context =
     (case sel_methods (selectors source) of
        None \<Rightarrow> []
      | Some sel \<Rightarrow> List.map_filter (method_of D source sel) (find_in D (ms_container sel) context))"

definition property_of :: "'n dom \<Rightarrow> PropertySelectors \<Rightarrow> 'n \<Rightarrow> Property option" where
  "property_of D sel el =
     (let name = trim (text_of D (dom_find D (ps_name sel) el)) in
      if name \<noteq> [] then
        Some \<lparr>q_name = name,
              q_description = (case ps_description sel of
                                 Some ds \<Rightarrow> extractText D (Many ds) [el] | None \<Rightarrow> []),
              q_type = field_text D (ps_type sel) el,
              q_defaultValue = field_text D (ps_defaultValue sel) el,
              q_isStatic = presence D (ps_isStatic sel) el,
              q_isPrivate = presence D (ps_isPrivate sel) el,
              q_decorators = decorators_of D (ps_decorators sel) el\<rparr>
      else None)"

definition extractProperties :: "'n dom \<Rightarrow> DocSource \<Rightarrow> 'n list \<Rightarrow> Property list" where
  "extractProperties D source context =
     (case sel_properties (selectors source) of
        None \<Rightarrow> []
      | Some sel \<Rightarrow> List.map_filter (property_of D sel) (find_in D (ps_container sel) context))"

subsection \<open>extractNamespace, extractEntry, extractEntries\<close>

definition extractNamespace :: "'n dom \<Rightarrow> DocSource \<Rightarrow> 'n \<Rightarrow> string list" where
  "extractNamespace D source root =
     (case configured (sel_namespace (selectors source)) of
        None \<Rightarrow> []
      | Some ns \<Rightarrow> filter (\<lambda>t. t \<noteq> []) (map (\<lambda>el. trim (dom_text D el)) (dom_find D ns root)))"

text \<open>\<open>Array.prototype.join\<close>\<close>

fun join :: "string \<Rightarrow> string list \<Rightarrow> string" where
  "join sep [] = []"
| "join sep [x] = x"
| "join sep (x # y # ys) = x @ sep @ join sep (y # ys)"

definition entry_id ::
  "'n dom \<Rightarrow> DocSource \<Rightarrow> LastIndex \<Rightarrow> 'n list \<Rightarrow> string list \<Rightarrow> string
     \<Rightarrow> string \<times> LastIndex" where
  "entry_id D source li el namespace name =
     (case configured (sel_id (selectors source)) of
        Some ids \<Rightarrow>
          (let idEl = first (find_in D ids el);
               idText = (if idEl \<noteq> [] then trim (text_of D idEl) else [])
           in case idExtract (patterns source) of
                Some ie \<Rightarrow>
                  (case String_match idText ie (li_idExtract li) of
                     (idMatch, i) \<Rightarrow>
                       (case capture1 idMatch of
                          Some g \<Rightarrow> g
                        | None \<Rightarrow> join ''.'' (namespace @ [name]),
                        li\<lparr>li_idExtract := i\<rparr>))
              | None \<Rightarrow> (idText, li))
      | None \<Rightarrow> (join ''.'' (namespace @ [name]), li))"

definition entry_signature ::
  "'n dom \<Rightarrow> DocSource \<Rightarrow> LastIndex \<Rightarrow> 'n list \<Rightarrow> string option \<times> LastIndex" where
  "entry_signature D source li el =
     (case configured (sel_signature (selectors source)) of
        None \<Rightarrow> (None, li)
      | Some ss \<Rightarrow>
          (let sig = find_in D ss el in
           if sig \<noteq> [] then
             (let signature = trim (text_of D sig) in
              case signatureClean (patterns source) of
                Some sc \<Rightarrow>
                  (case String_match signature sc (li_signatureClean li) of
                     (cleaned, i) \<Rightarrow>
                       (case truthy (capture1 cleaned) of
                          Some g \<Rightarrow> Some g
                        | None \<Rightarrow> Some signature,
                        li\<lparr>li_signatureClean := i\<rparr>))
              | None \<Rightarrow> (Some signature, li))
           else (None, li)))"

text \<open>\<open>extractText(...)[0]\<close>: \<open>undefined\<close> on the empty array.\<close>

definition element0 :: "'a list \<Rightarrow> 'a option" where
  "element0 xs = (case xs of [] \<Rightarrow> None | x # _ \<Rightarrow> Some x)"

text \<open>
  \<open>extractEntry\<close> for the element \<open>$el = $(el)\<close>. \<open>Inr None\<close> is the \<open>null\<close> of an element
  that gives no entry; \<open>Inl\<close> is the \<open>TypeError\<close> of the URL constructor, which nothing
  catches. \<open>now\<close> is \<open>new Date().toISOString()\<close>. The second component is the
  \<open>lastIndex\<close> of the patterns after the call.
\<close>

definition new_entry ::
  "'n dom \<Rightarrow> DocSource \<Rightarrow> string \<Rightarrow> 'n \<Rightarrow> string \<Rightarrow> EntryType \<Rightarrow> string list \<Rightarrow> string
     \<Rightarrow> string option \<Rightarrow> string \<Rightarrow> string \<Rightarrow> DocEntry" where
  "new_entry D source now el ident type namespace name signature fullUrl normalized =
     \<lparr>e_id = ident, e_type = type, e_namespace = namespace, e_name = name,
      e_title = element0 (extractText D (One (sel_title (selectors source))) [el]),
      e_description = extractText D (Many (sel_description (selectors source))) [el],
      e_signature = signature,
      e_source = \<lparr>es_name = src_name source, es_url = fullUrl,
                  es_normalizedUrl = normalized, es_version = src_version source\<rparr>,
      e_parameters = None, e_returns = None,
      e_examples = extractExamples D source [el],
      e_parent = None, e_children = None,
      e_scrapedAt = now,
      e_methods = None, e_properties = None\<rparr>"

text \<open>The three blocks that follow the object literal.\<close>

definition add_members :: "'n dom \<Rightarrow> DocSource \<Rightarrow> 'n \<Rightarrow> DocEntry \<Rightarrow> DocEntry" where
  "add_members D source el entry =
     (if e_type entry = KClass then
        (let methods = extractMethods D source [el];
             entry1 = (if methods \<noteq> [] then entry\<lparr>e_methods := Some methods\<rparr> else entry);
             properties = extractProperties D source [el]
         in if properties \<noteq> [] then entry1\<lparr>e_properties := Some properties\<rparr> else entry1)
      else entry)"

definition add_parameters :: "'n dom \<Rightarrow> DocSource \<Rightarrow> 'n \<Rightarrow> DocEntry \<Rightarrow> DocEntry" where
  "add_parameters D source el entry =
     (case sel_parameters (selectors source) of
        None \<Rightarrow> entry
      | Some _ \<Rightarrow>
          (let parameters = extractParameters D source [el] in
           if parameters \<noteq> [] then entry\<lparr>e_parameters := Some parameters\<rparr> else entry))"

definition add_returns :: "'n dom \<Rightarrow> DocSource \<Rightarrow> 'n \<Rightarrow> DocEntry \<Rightarrow> DocEntry" where
  "add_returns D source el entry =
     (case configured (sel_returns (selectors source)) of
        None \<Rightarrow> entry
      | Some _ \<Rightarrow>
          (case extractReturns D source [el] of
             Some returns \<Rightarrow> entry\<lparr>e_returns := Some returns\<rparr>
           | None \<Rightarrow> entry))"

definition extractEntry ::
  "'n dom \<Rightarrow> url_api \<Rightarrow> DocSource \<Rightarrow> string \<Rightarrow> LastIndex \<Rightarrow> 'n \<Rightarrow> string \<Rightarrow> string list
     \<Rightarrow> (error + DocEntry option) \<times> LastIndex" where
  "extractEntry D U source now li el url namespace =
     (case determineType D source li [el] of
        (None, li1) \<Rightarrow> (Inr None, li1)
      | (Some type, li1) \<Rightarrow>
          (let nameEl = first (find_in D (sel_name (selectors source)) [el]);
               nameText = (if nameEl \<noteq> [] then trim (text_of D nameEl)
                           else trim (text_of D [el]))
           in case String_match nameText (nameExtract (patterns source)) (li_nameExtract li1) of
                (nameMatch, i) \<Rightarrow>
          (let li2 = li1\<lparr>li_nameExtract := i\<rparr> in
           case truthy (capture1 nameMatch) of
                None \<Rightarrow> (Inr None, li2)
              | Some name \<Rightarrow>
                  (case entry_id D source li2 [el] namespace name of
                     (ident, li3) \<Rightarrow>
                   (case (case truthy (attr_of D ''href'' [el]) of
                           Some href \<Rightarrow> resolve U href url
                         | None \<Rightarrow> Inr url) of
                     Inl err \<Rightarrow> (Inl err, li3)
                   | Inr fullUrl \<Rightarrow>
                       (case entry_signature D source li3 [el] of
                          (signature, li4) \<Rightarrow>
                        (case normalizeUrl U fullUrl of
                          Inl err \<Rightarrow> (Inl err, li4)
                        | Inr normalized \<Rightarrow>
                            (Inr (Some (add_returns D source el
                                         (add_parameters D source el
                                           (add_members D source el
                                             (new_entry D source now el ident type namespace
                                                name signature fullUrl normalized))))),
                             li4))))))))"

text \<open>A loop whose body may throw and may push one value: the pushed values in order, or the
  first error.\<close>

fun collect :: "('a \<Rightarrow> error + 'b option) \<Rightarrow> 'a list \<Rightarrow> error + 'b list" where
  "collect f [] = Inr []"
| "collect f (x # xs) =
     (case f x of
        Inl err \<Rightarrow> Inl err
      | Inr r \<Rightarrow> (case collect f xs of
                    Inl err \<Rightarrow> Inl err
                  | Inr rs \<Rightarrow> Inr (case r of None \<Rightarrow> rs | Some y \<Rightarrow> y # rs)))"

text \<open>The same loop when the body also changes a state.\<close>

fun collect_with ::
  "('s \<Rightarrow> 'a \<Rightarrow> (error + 'b option) \<times> 's) \<Rightarrow> 's \<Rightarrow> 'a list \<Rightarrow> (error + 'b list) \<times> 's" where
  "collect_with f s [] = (Inr [], s)"
| "collect_with f s (x # xs) =
     (case f s x of
        (Inl err, s1) \<Rightarrow> (Inl err, s1)
      | (Inr r, s1) \<Rightarrow>
          (case collect_with f s1 xs of
             (Inl err, s2) \<Rightarrow> (Inl err, s2)
           | (Inr rs, s2) \<Rightarrow> (Inr (case r of None \<Rightarrow> rs | Some y \<Rightarrow> y # rs), s2)))"

text \<open>A page is the root node of its document; \<open>$(sel)\<close> selects below the root.\<close>

definition extractEntries ::
  "'n dom \<Rightarrow> url_api \<Rightarrow> DocSource \<Rightarrow> string \<Rightarrow> LastIndex \<Rightarrow> 'n \<Rightarrow> string
     \<Rightarrow> (error + DocEntry list) \<times> LastIndex" where
  "extractEntries D U source now li root url =
     (let content = dom_find D ''body'' root;
          namespace = extractNamespace D source root
      in collect_with (\<lambda>li el. extractEntry D U source now li el url namespace) li
                 (find_in D (contentLinks (selectors source)) content))"

subsection \<open>extractLinks\<close>

definition link_of :: "'n dom \<Rightarrow> url_api \<Rightarrow> string \<Rightarrow> 'n \<Rightarrow> error + string option" where
  "link_of D U currentUrl el =
     (case truthy (dom_attr D ''href'' el) of
        None \<Rightarrow> Inr None
      | Some href \<Rightarrow>
          (case resolve U href currentUrl of
             Inl err \<Rightarrow> Inl err
           | Inr absolute \<Rightarrow>
               (case normalizeUrl U absolute of
                  Inl err \<Rightarrow> Inl err
                | Inr link \<Rightarrow> Inr (Some link))))"

text \<open>\<open>[...new Set(links)]\<close>: the first occurrence of each link, in order.\<close>

definition unique :: "'a list \<Rightarrow> 'a list" where
  "unique xs = fold (\<lambda>x acc. if x \<in> set acc then acc else acc @ [x]) xs []"

definition extractLinks :: "'n dom \<Rightarrow> url_api \<Rightarrow> DocSource \<Rightarrow> 'n \<Rightarrow> string \<Rightarrow> error + string list" where
  "extractLinks D U source root currentUrl =
     (let sels = selectors source;
          anchors = dom_find D (navigationLinks sels) root
                    @ (case configured (subNavigationLinks sels) of
                         Some sub \<Rightarrow> dom_find D sub root | None \<Rightarrow> [])
                    @ dom_find D (contentLinks sels) root
      in case collect (link_of D U currentUrl) anchors of
           Inl err \<Rightarrow> Inl err
         | Inr links \<Rightarrow> Inr (unique links))"

section \<open>The hierarchy builder (establishHierarchy)\<close>

text \<open>\<open>s.split('.')\<close>\<close>

fun split_from :: "char \<Rightarrow> string \<Rightarrow> string \<Rightarrow> string list" where
  "split_from sep acc [] = [rev acc]"
| "split_from sep acc (c # cs) =
     (if c = sep then rev acc # split_from sep [] cs else split_from sep (c # acc) cs)"

definition split_js :: "char \<Rightarrow> string \<Rightarrow> string list" where
  "split_js sep s = split_from sep [] s"

text \<open>\<open>parts.slice(0, -1).join('.')\<close>\<close>

definition parentId_of :: "string \<Rightarrow> string" where
  "parentId_of ident = join ''.'' (butlast (split_js CHR ''.'' ident))"

text \<open>The position of the entry that \<open>entries.find\<close> returns: the first that satisfies the test.\<close>

fun find_index_from :: "nat \<Rightarrow> ('a \<Rightarrow> bool) \<Rightarrow> 'a list \<Rightarrow> nat option" where
  "find_index_from k P [] = None"
| "find_index_from k P (x # xs) = (if P x then Some k else find_index_from (Suc k) P xs)"

definition find_index :: "('a \<Rightarrow> bool) \<Rightarrow> 'a list \<Rightarrow> nat option" where
  "find_index P xs = find_index_from 0 P xs"

text \<open>
  The body of \<open>forEach\<close> for the entry at position \<open>i\<close>. The entries are objects of one array:
  the child is updated first, and the parent is read from the array after that update.
\<close>

definition link_entry :: "nat \<Rightarrow> DocEntry list \<Rightarrow> DocEntry list" where
  "link_entry i es =
     (let entry = es ! i; parts = split_js CHR ''.'' (e_id entry) in
      if 1 < length parts then
        (let parentId = join ''.'' (butlast parts) in
         case find_index (\<lambda>e. e_id e = parentId) es of
           None \<Rightarrow> es
         | Some j \<Rightarrow>
             (let es1 = es[i := entry\<lparr>e_parent := Some parentId\<rparr>];
                  parent = es1 ! j;
                  children = (case e_children parent of None \<Rightarrow> [] | Some cs \<Rightarrow> cs)
              in es1[j := parent\<lparr>e_children := Some (children @ [e_id entry])\<rparr>]))
      else es)"

definition establishHierarchy :: "DocEntry list \<Rightarrow> DocEntry list" where
  "establishHierarchy es = fold link_entry [0..<length es] es"

section \<open>The frontier and the crawl controller\<close>

text \<open>What a crawler changes while it runs: its frontier (\<open>visited\<close>, \<open>queue\<close>,
  \<open>entries\<close>) and the \<open>lastIndex\<close> of the patterns of its source.\<close>

record Crawler =
  visited :: "string set"
  queue :: "string list"
  entries :: "DocEntry list"
  lastIndex :: LastIndex

text \<open>The options that decide what the frontier becomes. \<open>delay\<close>, \<open>checkpointInterval\<close> and
  \<open>checkpointFile\<close> only time the loop and write checkpoints.\<close>

record Options =
  maxConcurrent :: "int option"
  maxDepth :: "int option"
  resumeFrom :: "string option"

subsection \<open>restoreCheckpoint\<close>

text \<open>
  The checkpoint document as \<open>restoreCheckpoint\<close> reads it: \<open>new Set(undefined)\<close> is the empty
  set, so \<open>visited\<close> may be missing; \<open>queue\<close> and \<open>entries\<close> are read with \<open>.length\<close>
  inside the \<open>try\<close>, so a document without them is an error like a syntax error.
\<close>

record Checkpoint =
  cp_visited :: "string list option"
  cp_queue :: "string list"
  cp_entries :: "DocEntry list"

text \<open>
  The file system: \<open>existsSync(f)\<close>, and the text of a file. \<open>restoreCheckpoint\<close> does not
  read the text: \<open>Bun.file(f)\<close> is a \<open>Blob\<close>, and its \<open>toString()\<close> is that of
  \<open>Object.prototype\<close>, the same string for every file.
\<close>

record files =
  existsSync :: "string \<Rightarrow> bool"
  file_text :: "string \<Rightarrow> string"
  json_parse :: "string \<Rightarrow> Checkpoint option"

definition BunFile_toString :: "string \<Rightarrow> string" where
  "BunFile_toString f = ''[object Blob]''"

text \<open>
  \<open>JSON.parse\<close> throws a \<open>SyntaxError\<close> on a text that does not begin with a value, and on one
  whose array begins with something that is neither a value nor \<open>]\<close>. On any other text it is
  the parameter \<open>json_parse\<close>: the checkpoint that the text denotes, \<open>None\<close> when
  \<open>JSON.parse\<close> throws or the document is not a checkpoint.
\<close>

definition json_space :: "char \<Rightarrow> bool" where
  "json_space c = (c \<in> set [CHR '' '', CHR 0x09, CHR 0x0A, CHR 0x0D])"

definition json_value_start :: "char \<Rightarrow> bool" where
  "json_value_start c = (c \<in> set ''{[-0123456789tfn'' \<or> c = CHR 0x22)"

definition JSON_parse :: "files \<Rightarrow> string \<Rightarrow> Checkpoint option" where
  "JSON_parse F s =
     (case dropWhile json_space s of
        [] \<Rightarrow> None
      | c # rest \<Rightarrow>
          (if \<not> json_value_start c then None
           else if c = CHR ''['' then
             (case dropWhile json_space rest of
                [] \<Rightarrow> None
              | d # _ \<Rightarrow> (if json_value_start d \<or> d = CHR '']'' then json_parse F s else None))
           else json_parse F s))"

definition restoreCheckpoint :: "files \<Rightarrow> Crawler \<Rightarrow> string \<Rightarrow> error + Crawler" where
  "restoreCheckpoint F st checkpointFile =
     (if \<not> existsSync F checkpointFile then Inr st
      else case JSON_parse F (BunFile_toString checkpointFile) of
             None \<Rightarrow> Inl (CheckpointUnreadable checkpointFile)
           | Some checkpoint \<Rightarrow>
               Inr (st\<lparr>visited := set (case cp_visited checkpoint of
                                         Some v \<Rightarrow> v | None \<Rightarrow> []),
                        queue := cp_queue checkpoint,
                        entries := cp_entries checkpoint\<rparr>))"

text \<open>A new crawler: empty fields, and patterns that have not been used.\<close>

definition unused :: LastIndex where
  "unused = \<lparr>li_isClass = 0, li_isMethod = 0, li_isFunction = 0, li_isModule = 0,
             li_isProperty = 0, li_nameExtract = 0, li_idExtract = 0, li_signatureClean = 0\<rparr>"

definition fresh :: Crawler where
  "fresh = \<lparr>visited = {}, queue = [], entries = [], lastIndex = unused\<rparr>"

text \<open>The constructor: the fields' initial values, then the restore when \<open>resumeFrom\<close> is given.\<close>

definition new_DocCrawler :: "files \<Rightarrow> Options \<Rightarrow> error + Crawler" where
  "new_DocCrawler F options =
     (case configured (resumeFrom options) of
        Some f \<Rightarrow> restoreCheckpoint F fresh f
      | None \<Rightarrow> Inr fresh)"

subsection \<open>fetchAndLoad, processPage\<close>

text \<open>
  \<open>await fetch(url)\<close> rejects, or resolves to a response with a status and a body, which
  \<open>load\<close> parses into a document. What the crawl runs in: the page library, the URL library,
  the network, the clock, and the order in which the fetches of a batch complete:
  \<open>env_completion\<close> maps the URLs whose fetch was started, in batch order, to the order
  in which they complete. The network answers a URL the same way each time it is asked.
\<close>

datatype 'n response = Rejected | Response nat 'n

record 'n env =
  env_dom :: "'n dom"
  env_url :: url_api
  env_fetch :: "string \<Rightarrow> 'n response"
  env_now :: string
  env_completion :: "string list \<Rightarrow> string list"

definition ok :: "nat \<Rightarrow> bool" where
  "ok status = (200 \<le> status \<and> status \<le> 299)"

definition fetchAndLoad :: "'n env \<Rightarrow> DocSource \<Rightarrow> string \<Rightarrow> error + 'n option" where
  "fetchAndLoad E source url =
     (case env_fetch E url of
        Response status doc \<Rightarrow>
          (if \<not> ok status then
             (if url = indexUrl source then Inl (IndexFetchFailed url) else Inr None)
           else Inr (Some doc))
      | Rejected \<Rightarrow>
          (if url = indexUrl source then Inl (IndexFetchFailed url) else Inr None))"

text \<open>
  \<open>processPage\<close> up to its first \<open>await\<close>: the two skips and \<open>visited.add\<close>. The flag tells
  whether the fetch was started.
\<close>

definition processPage_begin :: "Options \<Rightarrow> Crawler \<Rightarrow> string \<Rightarrow> int \<Rightarrow> Crawler \<times> bool" where
  "processPage_begin options st url depth =
     (if url \<in> visited st then (st, False)
      else if (case maxDepth options of Some md \<Rightarrow> md < depth | None \<Rightarrow> False) then (st, False)
      else (st\<lparr>visited := insert url (visited st)\<rparr>, True))"

text \<open>\<open>processPage\<close> from the moment its fetch completes.\<close>

definition processPage_resume :: "'n env \<Rightarrow> DocSource \<Rightarrow> Crawler \<Rightarrow> string \<Rightarrow> error + Crawler" where
  "processPage_resume E source st url =
     (case fetchAndLoad E source url of
        Inl err \<Rightarrow> Inl err
      | Inr None \<Rightarrow> Inr st
      | Inr (Some doc) \<Rightarrow>
          (case extractEntries (env_dom E) (env_url E) source (env_now E) (lastIndex st)
                  doc url of
             (Inl err, li) \<Rightarrow> Inl err
           | (Inr found, li) \<Rightarrow>
               (let st1 = st\<lparr>entries := entries st @ found, lastIndex := li\<rparr> in
                case extractLinks (env_dom E) (env_url E) source doc url of
                  Inl err \<Rightarrow> Inl err
                | Inr links \<Rightarrow>
                    (let newLinks = filter (\<lambda>link. link \<notin> visited st1) links in
                     Inr (st1\<lparr>queue := queue st1 @ newLinks\<rparr>)))))"


subsection \<open>crawlAll\<close>

text \<open>
  \<open>Promise.all(batch.map(url => this.processPage(url, 0)))\<close>: \<open>map\<close> runs every call up to
  its fetch, in batch order; the calls then resume one at a time as their fetches complete, and
  the first rejection rejects the whole.
\<close>

fun begin_all :: "Options \<Rightarrow> Crawler \<Rightarrow> string list \<Rightarrow> Crawler \<times> string list" where
  "begin_all options st [] = (st, [])"
| "begin_all options st (url # urls) =
     (case processPage_begin options st url 0 of
        (st1, started) \<Rightarrow>
          (case begin_all options st1 urls of
             (st2, fetching) \<Rightarrow> (st2, if started then url # fetching else fetching)))"

fun resume_all :: "'n env \<Rightarrow> DocSource \<Rightarrow> Crawler \<Rightarrow> string list \<Rightarrow> error + Crawler" where
  "resume_all E source st [] = Inr st"
| "resume_all E source st (url # urls) =
     (case processPage_resume E source st url of
        Inl err \<Rightarrow> Inl err
      | Inr st1 \<Rightarrow> resume_all E source st1 urls)"

definition processBatch ::
  "'n env \<Rightarrow> DocSource \<Rightarrow> Options \<Rightarrow> Crawler \<Rightarrow> string list \<Rightarrow> error + Crawler" where
  "processBatch E source options st batch =
     (case begin_all options st batch of
        (st1, fetching) \<Rightarrow> resume_all E source st1 (env_completion E fetching))"

text \<open>\<open>this.queue.splice(0, this.options.maxConcurrent || 5)\<close>: a negative count removes
  nothing.\<close>

definition batch_size :: "Options \<Rightarrow> nat" where
  "batch_size options =
     (case maxConcurrent options of
        None \<Rightarrow> 5
      | Some n \<Rightarrow> (if n = 0 then 5 else nat n))"

definition queueInitialPages :: "'n env \<Rightarrow> DocSource \<Rightarrow> Crawler \<Rightarrow> error + Crawler" where
  "queueInitialPages E source st =
     (case fetchAndLoad E source (indexUrl source) of
        Inl err \<Rightarrow> Inl err
      | Inr None \<Rightarrow> Inr st
      | Inr (Some doc) \<Rightarrow>
          (case extractLinks (env_dom E) (env_url E) source doc (indexUrl source) of
             Inl err \<Rightarrow> Inl err
           | Inr links \<Rightarrow> Inr (st\<lparr>queue := queue st @ links\<rparr>)))"

text \<open>
  The \<open>while\<close> loop, with no exit signal received. It need not end: the result is \<open>None\<close>
  when it does not.
\<close>

partial_function (option) crawl_loop ::
  "'n env \<Rightarrow> DocSource \<Rightarrow> Options \<Rightarrow> Crawler \<Rightarrow> (error + Crawler) option" where
  [code]: "crawl_loop E source options st =
     (if queue st \<noteq> [] then
        (let batch = take (batch_size options) (queue st);
             st1 = st\<lparr>queue := drop (batch_size options) (queue st)\<rparr>
         in case processBatch E source options st1 batch of
              Inl err \<Rightarrow> Some (Inl err)
            | Inr st2 \<Rightarrow> crawl_loop E source options st2)
      else Some (Inr st))"

definition crawlAll ::
  "'n env \<Rightarrow> DocSource \<Rightarrow> Options \<Rightarrow> Crawler \<Rightarrow> (error + Crawler) option" where
  "crawlAll E source options st =
     (case (if queue st = [] then queueInitialPages E source st else Inr st) of
        Inl err \<Rightarrow> Some (Inl err)
      | Inr st1 \<Rightarrow>
          (case crawl_loop E source options st1 of
             None \<Rightarrow> None
           | Some (Inl err) \<Rightarrow> Some (Inl err)
           | Some (Inr st2) \<Rightarrow> Some (Inr (st2\<lparr>entries := establishHierarchy (entries st2)\<rparr>))))"

text \<open>\<open>main\<close> in cli.ts: construct the crawler, then crawl. An error of either ends the
  process.\<close>

definition main :: "files \<Rightarrow> 'n env \<Rightarrow> DocSource \<Rightarrow> Options \<Rightarrow> (error + Crawler) option" where
  "main F E source options =
     (case new_DocCrawler F options of
        Inl err \<Rightarrow> Some (Inl err)
      | Inr st \<Rightarrow> crawlAll E source options st)"

section \<open>The specification's wording, for comparison\<close>

text \<open>Type determination: a text matches a pattern when the pattern finds a match in it; five
  tests in a fixed priority order, the first match wins.\<close>

definition matches :: "RegExp \<Rightarrow> string \<Rightarrow> bool" where
  "matches r text = (re_exec r 0 text \<noteq> None)"

definition type_tests :: "DocSource \<Rightarrow> (RegExp \<times> EntryType) list" where
  "type_tests source =
     [(isClass (patterns source), KClass), (isMethod (patterns source), KMethod),
      (isFunction (patterns source), KFunction), (isModule (patterns source), KModule),
      (isProperty (patterns source), KProperty)]"

fun first_match :: "(RegExp \<times> EntryType) list \<Rightarrow> string \<Rightarrow> EntryType option" where
  "first_match [] text = None"
| "first_match ((r, t) # rest) text = (if matches r text then Some t else first_match rest text)"

text \<open>Text collection: the trimmed non-empty texts of all the elements one selector matches,
  and their concatenation selector by selector.\<close>

definition texts_of :: "'n dom \<Rightarrow> string \<Rightarrow> 'n list \<Rightarrow> string list" where
  "texts_of D sel scope =
     filter (\<lambda>t. t \<noteq> []) (map (\<lambda>el. trim (dom_text D el)) (find_in D sel scope))"

fun collect_texts :: "'n dom \<Rightarrow> string list \<Rightarrow> 'n list \<Rightarrow> string list" where
  "collect_texts D [] scope = []"
| "collect_texts D (sel # sels) scope = texts_of D sel scope @ collect_texts D sels scope"

text \<open>Parameter extraction whose scope is the first element that the configured
  \<open>signature\<close> selector matches within the entry.\<close>

definition parameters_in_configured_signature ::
  "'n dom \<Rightarrow> DocSource \<Rightarrow> 'n list \<Rightarrow> Parameter list" where
  "parameters_in_configured_signature D source scope =
     (case (sel_parameters (selectors source), configured (sel_signature (selectors source))) of
        (Some descriptors, Some ss) \<Rightarrow>
          concat (map (descriptor_parameters D (first (find_in D ss scope))) descriptors)
      | _ \<Rightarrow> [])"

text \<open>The hierarchy: an identifier contains a separator; the identifier with its last
  dot-delimited segment dropped; the children of an identifier in processing order; and the
  linked entry list, in which the first entry that carries an identifier is its parent entry.\<close>

definition has_dot :: "string \<Rightarrow> bool" where
  "has_dot ident = (CHR ''.'' \<in> set ident)"

definition drop_last_segment :: "string \<Rightarrow> string" where
  "drop_last_segment ident = rev (tl (dropWhile (\<lambda>c. c \<noteq> CHR ''.'') (rev ident)))"

definition children_of :: "DocEntry list \<Rightarrow> string \<Rightarrow> string list" where
  "children_of es p =
     map e_id (filter (\<lambda>c. has_dot (e_id c) \<and> drop_last_segment (e_id c) = p) es)"

definition linked_entry :: "DocEntry list \<Rightarrow> nat \<Rightarrow> DocEntry" where
  "linked_entry es j =
     (let e = es ! j; ident = e_id e in
      e\<lparr>e_parent :=
           (if has_dot ident \<and> drop_last_segment ident \<in> e_id ` set es
            then Some (drop_last_segment ident) else e_parent e),
         e_children :=
           (if ident \<notin> e_id ` set (take j es) \<and> children_of es ident \<noteq> []
            then Some ((case e_children e of None \<Rightarrow> [] | Some cs \<Rightarrow> cs) @ children_of es ident)
            else e_children e)\<rparr>)"

definition linked :: "DocEntry list \<Rightarrow> DocEntry list" where
  "linked es = map (linked_entry es) [0..<length es]"



text \<open>The linked list when only the first \<open>k\<close> entries have been processed: they have their
  parent, and they are the only children recorded.\<close>

definition linked_entry_upto :: "nat \<Rightarrow> DocEntry list \<Rightarrow> nat \<Rightarrow> DocEntry" where
  "linked_entry_upto k es j =
     (let e = es ! j; ident = e_id e in
      e\<lparr>e_parent :=
           (if j < k \<and> has_dot ident \<and> drop_last_segment ident \<in> e_id ` set es
            then Some (drop_last_segment ident) else e_parent e),
         e_children :=
           (if ident \<notin> e_id ` set (take j es) \<and> children_of (take k es) ident \<noteq> []
            then Some ((case e_children e of None \<Rightarrow> [] | Some cs \<Rightarrow> cs)
                       @ children_of (take k es) ident)
            else e_children e)\<rparr>)"

definition linked_upto :: "nat \<Rightarrow> DocEntry list \<Rightarrow> DocEntry list" where
  "linked_upto k es = map (linked_entry_upto k es) [0..<length es]"

section \<open>Worked examples: a small page library, patterns and configurations\<close>

text \<open>Elements with attributes and children, and text nodes. A selector of the small page
  library is \<open>tag\<close>, \<open>.class\<close> or \<open>tag.class\<close>; it selects among the descendants in document
  order.\<close>

datatype node = Text string | Element string "(string \<times> string) list" "node list"

fun node_text :: "node \<Rightarrow> string" where
  "node_text (Text s) = s"
| "node_text (Element tag attrs kids) = concat (map node_text kids)"

fun descendants :: "node \<Rightarrow> node list" where
  "descendants (Text s) = []"
| "descendants (Element tag attrs kids) = concat (map (\<lambda>k. k # descendants k) kids)"

fun node_attr :: "string \<Rightarrow> node \<Rightarrow> string option" where
  "node_attr a (Text s) = None"
| "node_attr a (Element tag attrs kids) = map_of attrs a"

fun node_matches :: "string \<Rightarrow> node \<Rightarrow> bool" where
  "node_matches sel (Text s) = False"
| "node_matches sel (Element tag attrs kids) =
     (case split_js CHR ''.'' sel of
        [t] \<Rightarrow> t = tag
      | [t, c] \<Rightarrow> (t = [] \<or> t = tag) \<and>
                  c \<in> set (case map_of attrs ''class'' of None \<Rightarrow> [] | Some cs \<Rightarrow> split_ws cs)
      | _ \<Rightarrow> False)"

definition small_dom :: "node dom" where
  "small_dom = \<lparr>dom_find = (\<lambda>sel n. filter (node_matches sel) (descendants n)),
                dom_text = node_text, dom_attr = node_attr\<rparr>"

definition elem :: "string \<Rightarrow> string \<Rightarrow> node list \<Rightarrow> node" where
  "elem tag cls kids = Element tag [(''class'', cls)] kids"

text \<open>Two patterns as \<open>loadConfig\<close> compiles them: a literal, without groups, and
  \<open>/^(.+)$/s\<close>. \<open>index_of w s\<close> is the index of the leftmost occurrence of \<open>w\<close> in \<open>s\<close>;
  the literal matches at its leftmost occurrence from the start index on; \<open>/^(.+)$/s\<close>
  matches only from index 0. \<open>with_g\<close> is the pattern written with the flag \<open>g\<close>. The small
  engine knows sources without special characters, which are literals, and no flag but
  \<open>g\<close>.\<close>

fun index_of :: "string \<Rightarrow> string \<Rightarrow> nat option" where
  "index_of w [] = (if w = [] then Some 0 else None)"
| "index_of w (c # cs) =
     (if take (length w) (c # cs) = w then Some 0 else map_option Suc (index_of w cs))"

definition literal_exec :: "string \<Rightarrow> nat \<Rightarrow> string \<Rightarrow> (nat \<times> string option list) option" where
  "literal_exec w i s =
     (case index_of w (drop i s) of
        None \<Rightarrow> None
      | Some k \<Rightarrow> Some (i + k + length w, [Some w]))"

definition literal :: "string \<Rightarrow> RegExp" where
  "literal w = \<lparr>re_exec = literal_exec w, re_global = False, re_sticky = False\<rparr>"

definition whole :: RegExp where
  "whole =
     \<lparr>re_exec = (\<lambda>i s. if i = 0 \<and> s \<noteq> [] then Some (length s, [Some s, Some s]) else None),
      re_global = False, re_sticky = False\<rparr>"

definition with_g :: "RegExp \<Rightarrow> RegExp" where
  "with_g r = r\<lparr>re_global := True\<rparr>"

definition small_engine :: engine where
  "small_engine source flags =
     (if flags = [] \<or> flags = ''g'' then Some (literal_exec source) else None)"

text \<open>A small URL library: a URL is any text with something before the first \<open>#\<close>; a
  reference is resolved only when it is itself a URL with a scheme separator.\<close>

definition small_parse :: "string \<Rightarrow> url option" where
  "small_parse s =
     (let base = takeWhile (\<lambda>c. c \<noteq> CHR ''#'') s in
      if base = [] then None
      else Some \<lparr>u_base = base,
                 u_fragment = (case dropWhile (\<lambda>c. c \<noteq> CHR ''#'') s of
                                 [] \<Rightarrow> None | _ # f \<Rightarrow> Some f)\<rparr>)"

definition small_urls :: url_api where
  "small_urls = \<lparr>url_parse = small_parse,
                 url_resolve = (\<lambda>href base. if CHR '':'' \<in> set href then small_parse href
                                             else None)\<rparr>"

definition py_patterns :: Patterns where
  "py_patterns = \<lparr>isClass = literal ''class '', isMethod = literal ''def '',
                  isFunction = literal ''('', isModule = literal ''module '',
                  isProperty = literal ''@property'', nameExtract = whole,
                  idExtract = None, signatureClean = None\<rparr>"

definition py_selectors :: Selectors where
  "py_selectors = \<lparr>navigationLinks = ''a.nav'', subNavigationLinks = None,
                   contentLinks = ''dl'', sel_title = ''h1'', sel_name = ''.name'',
                   sel_id = None, sel_description = [''p'', ''.note''], sel_examples = [],
                   sel_parameters = None, sel_returns = None, sel_type = None,
                   sel_namespace = None, sel_signature = None, sel_methods = None,
                   sel_properties = None\<rparr>"

definition py_source :: DocSource where
  "py_source = \<lparr>src_name = ''Python'', baseUrl = ''http://docs/'', src_version = None,
                indexUrl = ''http://docs/index'', selectors = py_selectors,
                patterns = py_patterns, defaultLanguage = ''python''\<rparr>"

text \<open>An element whose text matches both the class and the method pattern, and one that matches
  no pattern.\<close>

definition el_both :: node where
  "el_both = Element ''dl'' [] [Text ''class def f'']"

definition el_none :: node where
  "el_none = Element ''dl'' [] [Text ''nothing here'']"

text \<open>The configuration whose \<open>isClass\<close> is written \<open>/class /g\<close>, and a page with three entry
  elements of that same text.\<close>

definition global_source :: DocSource where
  "global_source = py_source\<lparr>patterns := py_patterns\<lparr>isClass := with_g (literal ''class '')\<rparr>\<rparr>"

definition three_alike :: node where
  "three_alike = Element ''html'' [] [Element ''body'' [] [el_both, el_both, el_both]]"

text \<open>A scope in which the first selector of \<open>description\<close> matches three paragraphs, one of
  them empty, and the second selector matches a note.\<close>

definition note_el :: node where
  "note_el = elem ''span'' ''note'' [Text ''second'']"

definition scope_texts :: node where
  "scope_texts = Element ''dd'' []
     [Element ''p'' [] [Text '' first ''], Element ''p'' [] [Text ''  ''],
      note_el, Element ''p'' [] [Text ''third'']]"

text \<open>An entry element without any title element; a class with a signature, a parameter and a
  method; a function without members. The second configuration adds method and parameter
  selectors to the first.\<close>

definition el_untitled :: node where
  "el_untitled = Element ''dl'' [] [elem ''span'' ''name'' [Text ''class Foo'']]"

definition method_selectors :: MethodSelectors where
  "method_selectors = \<lparr>ms_container = ''.method'', ms_name = ''.name'',
                        ms_description = [''p''], ms_signature = None, ms_isStatic = None,
                        ms_isPrivate = None, ms_decorators = None\<rparr>"

definition members_source :: DocSource where
  "members_source =
     py_source\<lparr>selectors := py_selectors\<lparr>sel_methods := Some method_selectors,
                                             sel_parameters := Some [PString ''.param'']\<rparr>\<rparr>"

definition el_class :: node where
  "el_class = Element ''dl'' []
     [elem ''dt'' ''sig'' [elem ''span'' ''name'' [Text ''class Foo''],
                           elem ''span'' ''param'' [Text ''x'']],
      elem ''dl'' ''method'' [elem ''span'' ''name'' [Text ''bar'']]]"

definition el_function :: node where
  "el_function = Element ''dl'' [] [elem ''span'' ''name'' [Text ''f('']]"

definition el_blank_title :: node where
  "el_blank_title = Element ''dl'' []
     [Element ''h1'' [] [Text ''  ''], elem ''span'' ''name'' [Text ''class Foo'']]"

definition entry_untitled :: DocEntry where
  "entry_untitled =
     \<lparr>e_id = ''class Foo'', e_type = KClass, e_namespace = [], e_name = ''class Foo'',
      e_title = None, e_description = [], e_signature = None,
      e_source = \<lparr>es_name = ''Python'', es_url = ''http://docs/p'',
                  es_normalizedUrl = ''http://docs/p'', es_version = None\<rparr>,
      e_parameters = None, e_returns = None, e_examples = [], e_parent = None,
      e_children = None, e_scrapedAt = ''t0'', e_methods = None, e_properties = None\<rparr>"

definition entry_class :: DocEntry where
  "entry_class =
     entry_untitled
       \<lparr>e_parameters := Some [\<lparr>p_name = ''x'', p_type = None, p_description = [],
                                p_optional = False, p_default = None, p_isRest = False\<rparr>],
        e_methods := Some [\<lparr>m_name = ''bar'', m_description = [], m_signature = None,
                             m_parameters = None, m_returns = None, m_isStatic = None,
                             m_isPrivate = None, m_decorators = None\<rparr>]\<rparr>"

definition entry_function :: DocEntry where
  "entry_function = entry_untitled\<lparr>e_id := ''f('', e_type := KFunction, e_name := ''f(''\<rparr>"

text \<open>A rich parameter descriptor with a name and a default selector and no pattern; a
  parameter whose default element holds only white space, and one whose default is \<open>1\<close>.\<close>

definition param_config :: ParameterConfig where
  "param_config = \<lparr>pc_selector = ''.sig-param'', pc_nameSelector = Some ''.n'',
                    pc_typeSelector = None, pc_descriptionSelector = None,
                    pc_defaultSelector = Some ''.default_value'', pc_optionalPattern = None,
                    pc_namePattern = None, pc_typePattern = None, pc_defaultPattern = None,
                    pc_restPattern = None\<rparr>"

definition param_blank_default :: node where
  "param_blank_default = elem ''em'' ''sig-param''
     [elem ''span'' ''n'' [Text ''x''], elem ''span'' ''default_value'' [Text '' '']]"

definition param_with_default :: node where
  "param_with_default = elem ''em'' ''sig-param''
     [elem ''span'' ''n'' [Text ''y''], elem ''span'' ''default_value'' [Text ''1'']]"

definition simple_param :: "string \<Rightarrow> Parameter" where
  "simple_param name = \<lparr>p_name = name, p_type = None, p_description = [], p_optional = False,
                         p_default = None, p_isRest = False\<rparr>"

text \<open>A configuration whose signature selector is \<open>div.signature\<close>, and an entry whose
  parameters stand in such an element; an entry whose parameter stands outside any signature;
  an entry with two \<open>dt.sig\<close> elements.\<close>

definition sig_source :: DocSource where
  "sig_source =
     py_source\<lparr>selectors := py_selectors\<lparr>sel_signature := Some ''div.signature'',
                                             sel_parameters := Some [PString ''.param'']\<rparr>\<rparr>"

definition el_div_signature :: node where
  "el_div_signature = Element ''dl'' []
     [elem ''div'' ''signature'' [elem ''span'' ''param'' [Text ''x'']]]"

definition el_no_sig :: node where
  "el_no_sig = Element ''dl'' [] [elem ''span'' ''param'' [Text ''x'']]"

definition el_two_sigs :: node where
  "el_two_sigs = Element ''dl'' []
     [elem ''dt'' ''sig'' [elem ''span'' ''param'' [Text ''a'']],
      elem ''dt'' ''sig'' [elem ''span'' ''param'' [Text ''b'']]]"

text \<open>A saved checkpoint and a file system: \<open>good.json\<close> holds the text that denotes the
  checkpoint; there is no other file.\<close>

definition saved_checkpoint :: Checkpoint where
  "saved_checkpoint = \<lparr>cp_visited = Some [''/a''], cp_queue = [''/b''],
                        cp_entries = [entry_untitled]\<rparr>"

definition checkpoint_files :: files where
  "checkpoint_files =
     \<lparr>existsSync = (\<lambda>f. f = ''good.json''),
      file_text = (\<lambda>f. if f = ''good.json'' then ''{saved}'' else []),
      json_parse = (\<lambda>s. if s = ''{saved}'' then Some saved_checkpoint else None)\<rparr>"

definition resume_options :: "string \<Rightarrow> Options" where
  "resume_options f = \<lparr>maxConcurrent = Some 2, maxDepth = Some 5, resumeFrom = Some f\<rparr>"

text \<open>A small site: the index links to three pages; page \<open>a\<close> cannot be fetched, page \<open>b\<close>
  answers 404, page \<open>c\<close> holds one entry and links back to \<open>a\<close> and to the index.\<close>

definition anchor :: "string \<Rightarrow> node" where
  "anchor href = Element ''a'' [(''class'', ''nav''), (''href'', href)] []"

definition page :: "node list \<Rightarrow> node" where
  "page content = Element ''html'' [] [Element ''body'' [] content]"

definition index_page :: node where
  "index_page = page [anchor ''http://docs/a'', anchor ''http://docs/b'', anchor ''http://docs/c'']"

definition page_c :: node where
  "page_c = page [anchor ''http://docs/a#top'', anchor ''http://docs/d'', el_untitled]"

definition site :: "string \<Rightarrow> node response" where
  "site u =
     (if u = ''http://docs/index'' then Response 200 index_page
      else if u = ''http://docs/b'' then Response 404 (page [])
      else if u = ''http://docs/c'' then Response 200 page_c
      else if u = ''http://docs/d'' then Response 200 (page [])
      else Rejected)"

definition small_env :: "node env" where
  "small_env = \<lparr>env_dom = small_dom, env_url = small_urls, env_fetch = site,
                env_now = ''t0'', env_completion = (\<lambda>urls. urls)\<rparr>"



text \<open>Entries that differ in their identifier only, as extraction leaves them: without parent
  and without children.\<close>

definition named :: "string \<Rightarrow> DocEntry" where
  "named ident = entry_untitled\<lparr>e_id := ident\<rparr>"

definition four_entries :: "DocEntry list" where
  "four_entries = [named ''a.b.c'', named ''x'', named ''a'', named ''a.b'']"

section \<open>Evaluation of the worked examples\<close>

lemmas small_eval =
  small_dom_def find_in_def text_of_def first_def attr_of_def elem_def split_js_def
  split_ws_def is_space_def trim_def literal_def literal_exec_def whole_def test_def asRegExp_def
  group1_def truthy_def nonempty_def configured_def startsWith_def
  RegExp_exec_def RegExp_test_def String_match_def capture1_def uses_lastIndex_def
  py_source_def py_selectors_def py_patterns_def small_urls_def small_parse_def
  toString_def clear_hash_def

section \<open>Type determination\<close>

text \<open>A pattern without the flags \<open>g\<close> and \<open>y\<close> is tested from the start of the text and
  keeps its \<open>lastIndex\<close>: with five such patterns \<open>determineType\<close> is the first match in the
  fixed order, whatever was tested before.\<close>

lemma RegExp_test_unflagged:
  "\<not> uses_lastIndex r \<Longrightarrow> RegExp_test r i text = (matches r text, i)"
  by (cases "re_exec r 0 text") (simp_all add: RegExp_test_def RegExp_exec_def matches_def)

lemma determineType_unflagged:
  assumes "\<not> uses_lastIndex (isClass (patterns source))"
    and "\<not> uses_lastIndex (isMethod (patterns source))"
    and "\<not> uses_lastIndex (isFunction (patterns source))"
    and "\<not> uses_lastIndex (isModule (patterns source))"
    and "\<not> uses_lastIndex (isProperty (patterns source))"
  shows "determineType D source li el = (first_match (type_tests source) (text_of D el), li)"
  using assms
  by (simp add: determineType_def type_tests_def RegExp_test_unflagged Let_def)

lemma extractEntry_no_type:
  "fst (determineType D source li [el]) = None
     \<Longrightarrow> fst (extractEntry D U source now li el url ns) = Inr None"
  by (cases "determineType D source li [el]") (simp add: extractEntry_def)

lemma add_members_fields [simp]:
  "e_type (add_members D source el entry) = e_type entry"
  "e_title (add_members D source el entry) = e_title entry"
  "e_description (add_members D source el entry) = e_description entry"
  "e_examples (add_members D source el entry) = e_examples entry"
  "e_parameters (add_members D source el entry) = e_parameters entry"
  by (simp_all add: add_members_def Let_def)

lemma add_parameters_fields [simp]:
  "e_type (add_parameters D source el entry) = e_type entry"
  "e_title (add_parameters D source el entry) = e_title entry"
  "e_description (add_parameters D source el entry) = e_description entry"
  "e_examples (add_parameters D source el entry) = e_examples entry"
  "e_methods (add_parameters D source el entry) = e_methods entry"
  "e_properties (add_parameters D source el entry) = e_properties entry"
  by (simp_all add: add_parameters_def Let_def split: option.splits)

lemma add_returns_fields [simp]:
  "e_type (add_returns D source el entry) = e_type entry"
  "e_title (add_returns D source el entry) = e_title entry"
  "e_description (add_returns D source el entry) = e_description entry"
  "e_examples (add_returns D source el entry) = e_examples entry"
  "e_methods (add_returns D source el entry) = e_methods entry"
  "e_properties (add_returns D source el entry) = e_properties entry"
  "e_parameters (add_returns D source el entry) = e_parameters entry"
  by (simp_all add: add_returns_def split: option.splits)

text \<open>An entry that \<open>extractEntry\<close> returns is the object literal, with the determined type,
  passed through the three blocks.\<close>

lemma extractEntry_SomeE:
  assumes "fst (extractEntry D U source now li el url ns) = Inr (Some entry)"
  obtains type ident name signature fullUrl normalized where
    "fst (determineType D source li [el]) = Some type"
    "entry = add_returns D source el (add_parameters D source el (add_members D source el
       (new_entry D source now el ident type ns name signature fullUrl normalized)))"
  using assms
  by (auto simp: extractEntry_def Let_def split: option.splits sum.splits prod.splits)

lemma extractEntry_type:
  assumes "fst (extractEntry D U source now li el url ns) = Inr (Some entry)"
  shows "fst (determineType D source li [el]) = Some (e_type entry)"
  using assms by (elim extractEntry_SomeE) (simp add: new_entry_def)

text \<open>
  C1. The configuration whose class pattern is written \<open>/class /g\<close>, which \<open>loadConfig\<close>
  compiles with its flag, and a page with three entry elements of the text \<open>class def f\<close>.
  The text matches the class pattern and the method pattern, and its first match in the fixed
  order is \<open>class\<close>. \<open>determineType\<close> makes the first element a class and leaves the class
  pattern's \<open>lastIndex\<close> at 6, behind the match; for the second element the class pattern is
  tested from there, finds nothing and goes back to 0, and the element is a method; the third
  is a class again. The entries of the page have the types class, method, class.
\<close>

theorem determineType_after_global_match:
  "loadConfig_pattern small_engine ''/class /g'' = Some (isClass (patterns global_source)) \<and>
   loadConfig_pattern small_engine ''def '' = Some (isMethod (patterns global_source)) \<and>
   matches (isClass (patterns global_source)) (text_of small_dom [el_both]) \<and>
   matches (isMethod (patterns global_source)) (text_of small_dom [el_both]) \<and>
   first_match (type_tests global_source) (text_of small_dom [el_both]) = Some KClass \<and>
   determineType small_dom global_source unused [el_both] =
     (Some KClass, unused\<lparr>li_isClass := 6\<rparr>) \<and>
   determineType small_dom global_source (unused\<lparr>li_isClass := 6\<rparr>) [el_both] =
     (Some KMethod, unused) \<and>
   map_sum id (map e_type)
     (fst (extractEntries small_dom small_urls global_source ''t0'' unused three_alike
             ''http://docs/p'')) = Inr [KClass, KMethod, KClass]"
proof -
  have "loadConfig_pattern small_engine ''/class /g'' = Some (isClass (patterns global_source))"
    by (simp add: loadConfig_pattern_def new_RegExp_def pattern_source_def pattern_flags_def
        lastIndexOf_def startsWith_def small_engine_def global_source_def with_g_def literal_def)
  moreover
  have "loadConfig_pattern small_engine ''def '' = Some (isMethod (patterns global_source))"
    by (simp add: loadConfig_pattern_def new_RegExp_def pattern_source_def pattern_flags_def
        startsWith_def small_engine_def global_source_def py_patterns_def literal_def)
  moreover
  have "matches (isClass (patterns global_source)) (text_of small_dom [el_both])"
    "matches (isMethod (patterns global_source)) (text_of small_dom [el_both])"
    "first_match (type_tests global_source) (text_of small_dom [el_both]) = Some KClass"
    "determineType small_dom global_source unused [el_both] =
       (Some KClass, unused\<lparr>li_isClass := 6\<rparr>)"
    "determineType small_dom global_source (unused\<lparr>li_isClass := 6\<rparr>) [el_both] =
       (Some KMethod, unused)"
    "map_sum id (map e_type)
       (fst (extractEntries small_dom small_urls global_source ''t0'' unused three_alike
               ''http://docs/p'')) = Inr [KClass, KMethod, KClass]"
    by code_simp+
  ultimately show ?thesis by (intro conjI)
qed

section \<open>Text collection\<close>

lemma extractText_collect:
  "extractText D (Many sels) scope = collect_texts D sels scope"
  by (induction sels) (simp_all add: extractText_def texts_of_def)

lemma extractText_one:
  "extractText D (One sel) scope = texts_of D sel scope"
  by (simp add: extractText_def texts_of_def)

lemma collect_texts_append:
  "collect_texts D (a @ b) scope = collect_texts D a scope @ collect_texts D b scope"
  by (induction a) simp_all

lemma collect_texts_set:
  "set (collect_texts D sels scope) = (\<Union>sel\<in>set sels. set (texts_of D sel scope))"
  by (induction sels) auto

lemma collect_texts_length:
  "length (collect_texts D sels scope) =
   sum_list (map (\<lambda>sel. length (texts_of D sel scope)) sels)"
  by (induction sels) auto

text \<open>
  C7. \<open>extractText\<close> returns, selector by selector in the given order, the trimmed non-empty
  texts of all the elements each selector matches in the scope. A bare selector is the list of
  that one selector; a primary and a fallback selector both contribute, the primary first;
  every matched element with a non-empty trimmed text is in the result, and the result has as
  many texts as all selectors together match.
\<close>

theorem extractText_all_selectors_contribute:
  "extractText D (Many sels) scope = collect_texts D sels scope \<and>
   extractText D (One sel) scope = texts_of D sel scope \<and>
   extractText D (Many [primary, fallback]) scope =
     texts_of D primary scope @ texts_of D fallback scope \<and>
   extractText D (Many (sels @ others)) scope =
     extractText D (Many sels) scope @ extractText D (Many others) scope \<and>
   (\<forall>s \<in> set sels. \<forall>el \<in> set (find_in D s scope).
      trim (dom_text D el) \<noteq> [] \<longrightarrow>
      trim (dom_text D el) \<in> set (extractText D (Many sels) scope)) \<and>
   length (extractText D (Many sels) scope) =
     sum_list (map (\<lambda>s. length (texts_of D s scope)) sels)"
proof (intro conjI ballI impI)
  show "extractText D (Many sels) scope = collect_texts D sels scope"
    by (rule extractText_collect)
  show "extractText D (One sel) scope = texts_of D sel scope"
    by (rule extractText_one)
  show "extractText D (Many [primary, fallback]) scope =
        texts_of D primary scope @ texts_of D fallback scope"
    by (simp add: extractText_collect)
  show "extractText D (Many (sels @ others)) scope =
        extractText D (Many sels) scope @ extractText D (Many others) scope"
    by (simp add: extractText_collect collect_texts_append)
  show "length (extractText D (Many sels) scope) =
        sum_list (map (\<lambda>s. length (texts_of D s scope)) sels)"
    by (simp add: extractText_collect collect_texts_length)
next
  fix s el
  assume "s \<in> set sels" "el \<in> set (find_in D s scope)" "trim (dom_text D el) \<noteq> []"
  then have "trim (dom_text D el) \<in> set (texts_of D s scope)"
    by (auto simp: texts_of_def)
  with \<open>s \<in> set sels\<close> show "trim (dom_text D el) \<in> set (extractText D (Many sels) scope)"
    by (auto simp: extractText_collect collect_texts_set)
qed

theorem extractText_all_selectors_contribute_witness:
  "''.note'' \<in> set [''p'', ''.note''] \<and>
   note_el \<in> set (find_in small_dom ''.note'' [scope_texts]) \<and>
   trim (dom_text small_dom note_el) \<noteq> [] \<and>
   trim (dom_text small_dom note_el) \<in>
     set (extractText small_dom (Many [''p'', ''.note'']) [scope_texts]) \<and>
   extractText small_dom (Many [''p'', ''.note'']) [scope_texts] =
     [''first'', ''third'', ''second'']"
proof -
  have sel: "''.note'' \<in> set [''p'', ''.note'']" by simp
  have el: "note_el \<in> set (find_in small_dom ''.note'' [scope_texts])"
    by (simp add: small_eval scope_texts_def note_el_def)
  have ne: "trim (dom_text small_dom note_el) \<noteq> []"
    by (simp add: small_eval note_el_def)
  have "texts_of small_dom ''p'' [scope_texts] = [''first'', ''third'']"
    by (simp add: texts_of_def small_eval scope_texts_def note_el_def)
  moreover have "texts_of small_dom ''.note'' [scope_texts] = [''second'']"
    by (simp add: texts_of_def small_eval scope_texts_def note_el_def)
  moreover note T = extractText_all_selectors_contribute
      [of small_dom "[''p'', ''.note'']" "[scope_texts]" "''p''" "''p''" "''.note''" "[]"]
  moreover from T have "extractText small_dom (Many [''p'', ''.note'']) [scope_texts] =
      texts_of small_dom ''p'' [scope_texts] @ texts_of small_dom ''.note'' [scope_texts]"
    by (elim conjE)
  ultimately have eq: "extractText small_dom (Many [''p'', ''.note'']) [scope_texts] =
      [''first'', ''third'', ''second'']"
    by (simp only: append.simps)
  from T sel el ne have "trim (dom_text small_dom note_el) \<in>
      set (extractText small_dom (Many [''p'', ''.note'']) [scope_texts])"
    by blast
  with sel el ne eq show ?thesis by (intro conjI)
qed

section \<open>The fields of an extracted entry\<close>

lemma extractText_empty_iff:
  "extractText D (One sel) [el] = [] \<longleftrightarrow> (\<forall>t \<in> set (dom_find D sel el). trim (dom_text D t) = [])"
  by (auto simp: extractText_def find_in_def filter_empty_conv)

lemma element0_None_iff: "element0 xs = None \<longleftrightarrow> xs = []"
  by (cases xs) (simp_all add: element0_def)

text \<open>
  C9. The title of an extracted entry is element 0 of the texts collected for the title
  selector in the entry's scope. It is absent exactly when every element the selector matches
  there has an empty trimmed text, and so when the selector matches nothing.
\<close>

theorem title_absent_without_match:
  assumes "fst (extractEntry D U source now li el url ns) = Inr (Some entry)"
  shows "e_title entry = element0 (extractText D (One (sel_title (selectors source))) [el]) \<and>
         (e_title entry = None \<longleftrightarrow>
            (\<forall>t \<in> set (dom_find D (sel_title (selectors source)) el). trim (dom_text D t) = [])) \<and>
         (dom_find D (sel_title (selectors source)) el = [] \<longrightarrow> e_title entry = None)"
proof -
  from assms have t: "e_title entry =
      element0 (extractText D (One (sel_title (selectors source))) [el])"
    by (elim extractEntry_SomeE) (simp add: new_entry_def)
  then have "e_title entry = None \<longleftrightarrow>
      (\<forall>t \<in> set (dom_find D (sel_title (selectors source)) el). trim (dom_text D t) = [])"
    by (simp add: element0_None_iff extractText_empty_iff)
  with t show ?thesis by simp
qed

theorem title_absent_without_match_witness:
  "fst (extractEntry small_dom small_urls py_source ''t0'' unused el_untitled ''http://docs/p'' []) =
     Inr (Some entry_untitled) \<and>
   dom_find small_dom (sel_title (selectors py_source)) el_untitled = [] \<and>
   e_title entry_untitled = None \<and>
   fst (extractEntry small_dom small_urls py_source ''t0'' unused el_blank_title ''http://docs/p'' []) =
     Inr (Some entry_untitled) \<and>
   dom_find small_dom (sel_title (selectors py_source)) el_blank_title =
     [Element ''h1'' [] [Text ''  '']] \<and>
   trim (dom_text small_dom (Element ''h1'' [] [Text ''  ''])) = []"
proof -
  have a: "fst (extractEntry small_dom small_urls py_source ''t0'' unused el_untitled ''http://docs/p'' []) =
     Inr (Some entry_untitled)"
    by code_simp
  have b: "dom_find small_dom (sel_title (selectors py_source)) el_untitled = []"
    by code_simp
  from title_absent_without_match [OF a] b have c: "e_title entry_untitled = None"
    by blast
  have d: "fst (extractEntry small_dom small_urls py_source ''t0'' unused el_blank_title ''http://docs/p'' []) =
     Inr (Some entry_untitled)"
    by code_simp
  have e: "dom_find small_dom (sel_title (selectors py_source)) el_blank_title =
     [Element ''h1'' [] [Text ''  '']]"
    by code_simp
  have f: "trim (dom_text small_dom (Element ''h1'' [] [Text ''  ''])) = []"
    by code_simp
  from a b c d e f show ?thesis by (intro conjI)
qed

text \<open>
  C10. On an extracted entry, \<open>parameters\<close>, \<open>methods\<close> and \<open>properties\<close> are never present
  as an empty list: each is stored only when its extraction step returns a non-empty list, and
  is then that list. \<open>methods\<close> and \<open>properties\<close> are stored only on an entry of type class.
  \<open>examples\<close> and \<open>description\<close> are always the lists their extraction steps return, empty
  or not.
\<close>

theorem optional_collections_nonempty:
  assumes "fst (extractEntry D U source now li el url ns) = Inr (Some entry)"
  shows "e_parameters entry \<noteq> Some [] \<and> e_methods entry \<noteq> Some [] \<and>
         e_properties entry \<noteq> Some [] \<and>
         e_parameters entry =
           (case sel_parameters (selectors source) of
              None \<Rightarrow> None
            | Some _ \<Rightarrow> (if extractParameters D source [el] = [] then None
                          else Some (extractParameters D source [el]))) \<and>
         e_methods entry =
           (if e_type entry = KClass \<and> extractMethods D source [el] \<noteq> []
            then Some (extractMethods D source [el]) else None) \<and>
         e_properties entry =
           (if e_type entry = KClass \<and> extractProperties D source [el] \<noteq> []
            then Some (extractProperties D source [el]) else None) \<and>
         (e_type entry \<noteq> KClass \<longrightarrow> e_methods entry = None \<and> e_properties entry = None) \<and>
         e_examples entry = extractExamples D source [el] \<and>
         e_description entry =
           extractText D (Many (sel_description (selectors source))) [el]"
proof -
  from assms obtain type ident name signature fullUrl normalized where
    e: "entry = add_returns D source el (add_parameters D source el (add_members D source el
       (new_entry D source now el ident type ns name signature fullUrl normalized)))"
    by (elim extractEntry_SomeE)
  have p: "e_parameters entry =
           (case sel_parameters (selectors source) of
              None \<Rightarrow> None
            | Some _ \<Rightarrow> (if extractParameters D source [el] = [] then None
                          else Some (extractParameters D source [el])))"
    by (simp add: e add_parameters_def new_entry_def Let_def split: option.splits)
  have m: "e_methods entry =
           (if e_type entry = KClass \<and> extractMethods D source [el] \<noteq> []
            then Some (extractMethods D source [el]) else None)"
    by (simp add: e add_members_def new_entry_def Let_def)
  have q: "e_properties entry =
           (if e_type entry = KClass \<and> extractProperties D source [el] \<noteq> []
            then Some (extractProperties D source [el]) else None)"
    by (simp add: e add_members_def new_entry_def Let_def)
  have x: "e_examples entry = extractExamples D source [el]"
    by (simp add: e new_entry_def)
  have d: "e_description entry =
           extractText D (Many (sel_description (selectors source))) [el]"
    by (simp add: e new_entry_def)
  from p have p0: "e_parameters entry \<noteq> Some []" by (simp split: option.splits if_splits)
  from m have m0: "e_methods entry \<noteq> Some []" by (simp split: if_splits)
  from q have q0: "e_properties entry \<noteq> Some []" by (simp split: if_splits)
  from m q have c: "e_type entry \<noteq> KClass \<longrightarrow> e_methods entry = None \<and> e_properties entry = None"
    by simp
  from p0 m0 q0 p m q c x d show ?thesis by (intro conjI)
qed

theorem optional_collections_nonempty_witness:
  "fst (extractEntry small_dom small_urls members_source ''t0'' unused el_class ''http://docs/p'' []) =
     Inr (Some entry_class) \<and>
   e_methods entry_class = Some (extractMethods small_dom members_source [el_class]) \<and>
   e_methods entry_class \<noteq> Some [] \<and> e_parameters entry_class \<noteq> Some [] \<and>
   e_properties entry_class = None \<and>
   fst (extractEntry small_dom small_urls members_source ''t0'' unused el_function ''http://docs/p'' []) =
     Inr (Some entry_function) \<and>
   e_type entry_function \<noteq> KClass \<and>
   e_methods entry_function = None \<and> e_properties entry_function = None \<and>
   e_parameters entry_function = None \<and> e_examples entry_function = []"
proof -
  have a: "fst (extractEntry small_dom small_urls members_source ''t0'' unused el_class ''http://docs/p'' []) =
     Inr (Some entry_class)"
    by code_simp
  have b: "fst (extractEntry small_dom small_urls members_source ''t0'' unused el_function ''http://docs/p'' []) =
     Inr (Some entry_function)"
    by code_simp
  have k: "e_type entry_class = KClass" "e_type entry_function \<noteq> KClass"
    by code_simp+
  have v: "extractMethods small_dom members_source [el_class] \<noteq> []"
    "extractProperties small_dom members_source [el_class] = []"
    "extractParameters small_dom members_source [el_function] = []"
    "extractExamples small_dom members_source [el_function] = []"
    by code_simp+
  note A = optional_collections_nonempty [OF a]
  note B = optional_collections_nonempty [OF b]
  from A have a1: "e_methods entry_class \<noteq> Some []"
    by (elim conjE)
  from A have a2: "e_parameters entry_class \<noteq> Some []"
    by (elim conjE)
  from A have "e_methods entry_class =
      (if e_type entry_class = KClass \<and> extractMethods small_dom members_source [el_class] \<noteq> []
       then Some (extractMethods small_dom members_source [el_class]) else None)"
    by (elim conjE)
  with k v have a3: "e_methods entry_class = Some (extractMethods small_dom members_source [el_class])"
    by simp
  from A have "e_properties entry_class =
      (if e_type entry_class = KClass \<and> extractProperties small_dom members_source [el_class] \<noteq> []
       then Some (extractProperties small_dom members_source [el_class]) else None)"
    by (elim conjE)
  with v have a4: "e_properties entry_class = None"
    by simp
  from B k have b1: "e_methods entry_function = None" and b2: "e_properties entry_function = None"
    by blast+
  from B have "e_parameters entry_function =
      (case sel_parameters (selectors members_source) of
         None \<Rightarrow> None
       | Some _ \<Rightarrow> (if extractParameters small_dom members_source [el_function] = [] then None
                     else Some (extractParameters small_dom members_source [el_function])))"
    by (elim conjE)
  with v have b3: "e_parameters entry_function = None"
    by (simp split: option.splits)
  from B have "e_examples entry_function = extractExamples small_dom members_source [el_function]"
    by (elim conjE)
  with v have b4: "e_examples entry_function = []"
    by simp
  from a a3 a1 a2 a4 b k(2) b1 b2 b3 b4 show ?thesis by (intro conjI)
qed

section \<open>Parameters\<close>

lemma truthy_Some_iff: "truthy v = Some s \<longleftrightarrow> v = Some s \<and> s \<noteq> []"
  by (auto simp: truthy_def nonempty_def split: option.splits if_splits)

lemma nonempty_Some_iff: "nonempty t = Some s \<longleftrightarrow> t = s \<and> s \<noteq> []"
  by (auto simp: nonempty_def)

text \<open>A default value, when there is one, is a non-empty text; there is one exactly when the
  default selector is configured and the trimmed text of what it selects is not empty.\<close>

lemma default_value_nonempty:
  "default_value D pc el = Some d \<Longrightarrow> d \<noteq> []"
  by (auto simp: default_value_def Let_def truthy_Some_iff nonempty_Some_iff
      split: option.splits prod.splits)

lemma default_value_found_iff:
  "default_value D pc el \<noteq> None \<longleftrightarrow>
   (\<exists>ds. configured (pc_defaultSelector pc) = Some ds \<and>
         trim (text_of D (dom_find D ds el)) \<noteq> [])"
  by (auto simp: default_value_def Let_def truthy_def nonempty_def split: option.splits)

lemma truthy_default_value: "truthy (default_value D pc el) = default_value D pc el"
  by (cases "default_value D pc el")
     (auto simp: truthy_def nonempty_def dest: default_value_nonempty)

lemma complex_parameter_SomeE:
  assumes "complex_parameter D pc el = Some p"
  obtains name where "raw_name D pc el = Some name"
    "p_default p = default_value D pc el"
    "p_optional p = (default_value D pc el \<noteq> None \<or>
       (case pc_optionalPattern pc of Some op \<Rightarrow> test op name | None \<Rightarrow> False))"
  using assms
  by (auto simp: complex_parameter_def Let_def truthy_default_value asRegExp_def
      split: option.splits if_splits)

text \<open>
  C2, as the code has it. For a parameter built from a rich descriptor: a default value was
  found exactly when the default selector is configured and the trimmed text of the elements
  it selects is not empty; then \<open>optional\<close> is true, whatever the optional pattern. In every
  case \<open>optional\<close> is the disjunction of "a default value was found" and the test of the
  optional pattern, when one is configured, on the raw name: the pattern can make the flag
  true and cannot make it false.
\<close>

theorem optional_when_default_found:
  assumes "complex_parameter D pc el = Some p"
  shows "(p_default p \<noteq> None \<longrightarrow> p_optional p) \<and>
         (p_default p \<noteq> None \<longleftrightarrow>
            (\<exists>ds. configured (pc_defaultSelector pc) = Some ds \<and>
                  trim (text_of D (dom_find D ds el)) \<noteq> [])) \<and>
         (\<exists>name. raw_name D pc el = Some name \<and>
            p_optional p =
              (p_default p \<noteq> None \<or>
               (case pc_optionalPattern pc of Some op \<Rightarrow> test op name | None \<Rightarrow> False)))"
proof -
  from assms obtain name where n: "raw_name D pc el = Some name"
    and d: "p_default p = default_value D pc el"
    and o: "p_optional p = (default_value D pc el \<noteq> None \<or>
       (case pc_optionalPattern pc of Some op \<Rightarrow> test op name | None \<Rightarrow> False))"
    by (rule complex_parameter_SomeE)
  from d o have 1: "p_default p \<noteq> None \<longrightarrow> p_optional p" by simp
  from d have 2: "p_default p \<noteq> None \<longleftrightarrow>
            (\<exists>ds. configured (pc_defaultSelector pc) = Some ds \<and>
                  trim (text_of D (dom_find D ds el)) \<noteq> [])"
    by (simp only: default_value_found_iff)
  from n d o have 3: "\<exists>name. raw_name D pc el = Some name \<and>
            p_optional p =
              (p_default p \<noteq> None \<or>
               (case pc_optionalPattern pc of Some op \<Rightarrow> test op name | None \<Rightarrow> False))"
    by simp
  from 1 2 3 show ?thesis by (intro conjI)
qed

theorem optional_when_default_found_witness:
  "complex_parameter small_dom param_config param_with_default =
     Some ((simple_param ''y'')\<lparr>p_optional := True, p_default := Some ''1''\<rparr>) \<and>
   p_default ((simple_param ''y'')\<lparr>p_optional := True, p_default := Some ''1''\<rparr>) \<noteq> None \<and>
   p_optional ((simple_param ''y'')\<lparr>p_optional := True, p_default := Some ''1''\<rparr>)"
proof -
  have a: "complex_parameter small_dom param_config param_with_default =
     Some ((simple_param ''y'')\<lparr>p_optional := True, p_default := Some ''1''\<rparr>)"
    by code_simp
  have b: "p_default ((simple_param ''y'')\<lparr>p_optional := True, p_default := Some ''1''\<rparr>) \<noteq> None"
    by simp
  from optional_when_default_found [OF a] b
  have "p_optional ((simple_param ''y'')\<lparr>p_optional := True, p_default := Some ''1''\<rparr>)"
    by blast
  with a b show ?thesis by (intro conjI)
qed

text \<open>
  C2 as stated fails where the default selector matches an element of blank text: the selector
  has matched, no default value is stored, and \<open>optional\<close> is false.
\<close>

theorem optional_default_selector_counterexample:
  "dom_find small_dom ''.default_value'' param_blank_default =
     [elem ''span'' ''default_value'' [Text '' '']] \<and>
   pc_defaultSelector param_config = Some ''.default_value'' \<and>
   complex_parameter small_dom param_config param_blank_default = Some (simple_param ''x'') \<and>
   p_optional (simple_param ''x'') = False"
  by code_simp

text \<open>
  C8, as the code has it. When parameter descriptors are configured, the parameters of a scope
  are those the descriptors select below the first element that matches the fixed selector
  \<open>dt.sig\<close> in that scope. No other field of the configuration takes part: two configurations
  with the same descriptors give the same parameters, whatever their \<open>signature\<close> selector.
  Two scopes with the same first \<open>dt.sig\<close> element give the same parameters, and a scope
  without such an element gives none.
\<close>

theorem parameters_scoped_to_first_dt_sig:
  "extractParameters D source scope =
     (case sel_parameters (selectors source) of
        None \<Rightarrow> []
      | Some descriptors \<Rightarrow>
          (case find_in D ''dt.sig'' scope of
             [] \<Rightarrow> []
           | sig # _ \<Rightarrow> concat (map (descriptor_parameters D [sig]) descriptors))) \<and>
   (find_in D ''dt.sig'' scope = [] \<longrightarrow> extractParameters D source scope = []) \<and>
   (first (find_in D ''dt.sig'' scope) = first (find_in D ''dt.sig'' scope')
      \<longrightarrow> extractParameters D source scope = extractParameters D source scope') \<and>
   (sel_parameters (selectors source) = sel_parameters (selectors source')
      \<longrightarrow> extractParameters D source scope = extractParameters D source' scope)"
  by (auto simp: extractParameters_def first_def Let_def split: option.splits list.splits)

theorem parameters_scoped_to_first_dt_sig_witness:
  "find_in small_dom ''dt.sig'' [el_no_sig] = [] \<and>
   find_in small_dom ''.param'' [el_no_sig] = [elem ''span'' ''param'' [Text ''x'']] \<and>
   extractParameters small_dom members_source [el_no_sig] = [] \<and>
   extractParameters small_dom members_source [el_two_sigs] = [simple_param ''a''] \<and>
   sig_source \<noteq> members_source \<and>
   sel_parameters (selectors sig_source) = sel_parameters (selectors members_source) \<and>
   extractParameters small_dom sig_source [el_div_signature] =
     extractParameters small_dom members_source [el_div_signature]"
proof -
  have a: "find_in small_dom ''dt.sig'' [el_no_sig] = []"
    by code_simp
  have b: "find_in small_dom ''.param'' [el_no_sig] = [elem ''span'' ''param'' [Text ''x'']]"
    by code_simp
  note T = parameters_scoped_to_first_dt_sig
    [of small_dom members_source "[el_no_sig]" "[el_no_sig]" members_source]
  from T a have c: "extractParameters small_dom members_source [el_no_sig] = []"
    by blast
  have d: "extractParameters small_dom members_source [el_two_sigs] = [simple_param ''a'']"
    by code_simp
  have e: "sel_parameters (selectors sig_source) = sel_parameters (selectors members_source)"
    by (simp add: sig_source_def members_source_def)
  have f: "sig_source \<noteq> members_source"
    by (simp add: sig_source_def members_source_def py_source_def py_selectors_def)
  note S = parameters_scoped_to_first_dt_sig
    [of small_dom sig_source "[el_div_signature]" "[el_div_signature]" members_source]
  from S e have g: "extractParameters small_dom sig_source [el_div_signature] =
     extractParameters small_dom members_source [el_div_signature]"
    by blast
  from a b c d f e g show ?thesis by (intro conjI)
qed

text \<open>
  C8 as stated fails: with the signature selector configured as \<open>div.signature\<close>, an entry
  whose parameter stands in its \<open>div.signature\<close> element has no parameters, where scoping by
  the configured selector gives one.
\<close>

theorem parameters_scope_not_configured_counterexample:
  "sel_signature (selectors sig_source) = Some ''div.signature'' \<and>
   find_in small_dom ''div.signature'' [el_div_signature] =
     [elem ''div'' ''signature'' [elem ''span'' ''param'' [Text ''x'']]] \<and>
   parameters_in_configured_signature small_dom sig_source [el_div_signature] =
     [simple_param ''x''] \<and>
   extractParameters small_dom sig_source [el_div_signature] = []"
  by code_simp

section \<open>Checkpoint restore\<close>

text \<open>What \<open>restoreCheckpoint\<close> hands to \<open>JSON.parse\<close> is not JSON, whatever the file holds.\<close>

lemma JSON_parse_BunFile_toString: "JSON_parse F (BunFile_toString f) = None"
  by (simp add: JSON_parse_def BunFile_toString_def json_space_def json_value_start_def)

text \<open>So the restore leaves the crawler as it is when the file does not exist, and is an error
  when it exists; the constructor and \<open>main\<close> follow.\<close>

lemma restoreCheckpoint_existing:
  "restoreCheckpoint F st f = (if existsSync F f then Inl (CheckpointUnreadable f) else Inr st)"
  by (simp add: restoreCheckpoint_def JSON_parse_BunFile_toString)

lemma new_DocCrawler_resume:
  "new_DocCrawler F options =
     (case configured (resumeFrom options) of
        None \<Rightarrow> Inr fresh
      | Some f \<Rightarrow> (if existsSync F f then Inl (CheckpointUnreadable f) else Inr fresh))"
  by (simp add: new_DocCrawler_def restoreCheckpoint_existing split: option.splits)

lemma main_resume_existing:
  assumes "configured (resumeFrom options) = Some f" and "existsSync F f"
  shows "main F E source options = Some (Inl (CheckpointUnreadable f))"
  using assms by (simp add: main_def new_DocCrawler_resume)

text \<open>
  C4. The file \<open>good.json\<close> exists and its text denotes a saved checkpoint. The restore does
  not read that text: it parses \<open>[object Blob]\<close>, and is an error. Neither the visited set nor
  the queue nor the entries are replaced; the constructor fails, and the run ends with the
  error before it crawls. With a file that does not exist the constructor gives the fresh
  crawler.
\<close>

theorem restoreCheckpoint_saved_checkpoint:
  "existsSync checkpoint_files ''good.json'' \<and>
   json_parse checkpoint_files (file_text checkpoint_files ''good.json'') =
     Some saved_checkpoint \<and>
   BunFile_toString ''good.json'' = ''[object Blob]'' \<and>
   restoreCheckpoint checkpoint_files fresh ''good.json'' =
     Inl (CheckpointUnreadable ''good.json'') \<and>
   new_DocCrawler checkpoint_files (resume_options ''good.json'') =
     Inl (CheckpointUnreadable ''good.json'') \<and>
   main checkpoint_files small_env py_source (resume_options ''good.json'') =
     Some (Inl (CheckpointUnreadable ''good.json'')) \<and>
   new_DocCrawler checkpoint_files (resume_options ''none.json'') = Inr fresh"
  by code_simp


section \<open>Fetch failures in the crawl\<close>














section \<open>Dotted identifiers\<close>

lemma split_from_acc:
  "split_from sep acc s = (rev acc @ hd (split_from sep [] s)) # tl (split_from sep [] s)"
proof (induction s arbitrary: acc)
  case Nil
  show ?case by simp
next
  case (Cons c cs)
  show ?case
  proof (cases "c = sep")
    case True
    then show ?thesis by simp
  next
    case False
    have "split_from sep (c # acc) cs
          = (rev (c # acc) @ hd (split_from sep [] cs)) # tl (split_from sep [] cs)"
      by (rule Cons.IH)
    moreover have "split_from sep [c] cs
          = (rev [c] @ hd (split_from sep [] cs)) # tl (split_from sep [] cs)"
      by (rule Cons.IH)
    ultimately show ?thesis using False by simp
  qed
qed

lemma split_js_Nil [simp]: "split_js sep [] = [[]]"
  by (simp add: split_js_def)

lemma split_js_Cons:
  "split_js sep (c # cs) =
     (if c = sep then [] # split_js sep cs
      else (c # hd (split_js sep cs)) # tl (split_js sep cs))"
  using split_from_acc [of sep "[c]" cs] by (simp add: split_js_def)

lemma split_js_not_Nil [simp]: "split_js sep s \<noteq> []"
  by (cases s) (simp_all add: split_js_Cons)

lemma join_Cons: "join sep (x # xs) = (if xs = [] then x else x @ sep @ join sep xs)"
  by (cases xs) simp_all

lemma join_snoc: "xs \<noteq> [] \<Longrightarrow> join sep (xs @ [l]) = join sep xs @ sep @ l"
  by (induction xs) (auto simp: join_Cons)

lemma join_split_js: "join [sep] (split_js sep s) = s"
proof (induction s)
  case Nil
  show ?case by simp
next
  case (Cons c cs)
  obtain x xs where s: "split_js sep cs = x # xs"
    by (cases "split_js sep cs") simp_all
  with Cons show ?case by (auto simp: split_js_Cons join_Cons)
qed

lemma split_js_segments: "x \<in> set (split_js sep s) \<Longrightarrow> sep \<notin> set x"
proof (induction s arbitrary: x)
  case Nil
  then show ?case by simp
next
  case (Cons c cs)
  obtain y ys where s: "split_js sep cs = y # ys"
    by (cases "split_js sep cs") simp_all
  with Cons.prems Cons.IH [of y] Cons.IH [of x] show ?case
    by (auto simp: split_js_Cons split: if_splits)
qed

lemma length_split_js: "length (split_js sep s) = Suc (length (filter (\<lambda>c. c = sep) s))"
proof (induction s)
  case Nil
  show ?case by simp
next
  case (Cons c cs)
  obtain y ys where s: "split_js sep cs = y # ys"
    by (cases "split_js sep cs") simp_all
  with Cons show ?case by (simp add: split_js_Cons)
qed

lemma has_dot_iff_parts: "has_dot ident \<longleftrightarrow> 1 < length (split_js CHR ''.'' ident)"
  by (auto simp: has_dot_def length_split_js filter_empty_conv)

text \<open>A dotted identifier is its parent identifier, a dot, and a last segment without dot.\<close>

lemma dotted_decomposition:
  assumes "has_dot ident"
  shows "ident = parentId_of ident @ ''.'' @ last (split_js CHR ''.'' ident)"
    and "\<not> has_dot (last (split_js CHR ''.'' ident))"
proof -
  let ?parts = "split_js CHR ''.'' ident"
  from assms have "1 < length ?parts" by (simp add: has_dot_iff_parts)
  then have b: "butlast ?parts \<noteq> []" by (cases ?parts rule: rev_cases) auto
  have "?parts = butlast ?parts @ [last ?parts]" by simp
  then have "join ''.'' ?parts = join ''.'' (butlast ?parts) @ ''.'' @ last ?parts"
    using join_snoc [OF b, of "''.''" "last ?parts"] by simp
  then show "ident = parentId_of ident @ ''.'' @ last ?parts"
    by (simp add: join_split_js parentId_of_def)
  have "last ?parts \<in> set ?parts" by simp
  then show "\<not> has_dot (last ?parts)"
    unfolding has_dot_def by (rule split_js_segments)
qed

lemma dropWhile_to_separator:
  "sep \<notin> set xs \<Longrightarrow> dropWhile (\<lambda>c. c \<noteq> sep) (xs @ sep # ys) = sep # ys"
  by (induction xs) auto

lemma drop_last_segment_append:
  assumes "\<not> has_dot l"
  shows "drop_last_segment (p @ ''.'' @ l) = p"
proof -
  from assms have "dropWhile (\<lambda>c. c \<noteq> CHR ''.'') (rev l @ CHR ''.'' # rev p) = CHR ''.'' # rev p"
    by (simp add: dropWhile_to_separator has_dot_def)
  then show ?thesis by (simp add: drop_last_segment_def)
qed

lemma parentId_of_eq:
  assumes "has_dot ident"
  shows "parentId_of ident = drop_last_segment ident"
  using dotted_decomposition [OF assms]
    drop_last_segment_append [of "last (split_js CHR ''.'' ident)" "parentId_of ident"]
  by simp

lemma drop_last_segment_shorter:
  assumes "has_dot ident"
  shows "drop_last_segment ident \<noteq> ident"
proof
  assume "drop_last_segment ident = ident"
  with parentId_of_eq [OF assms] have "parentId_of ident = ident" by simp
  with dotted_decomposition(1) [OF assms]
  have "length ident = length (ident @ ''.'' @ last (split_js CHR ''.'' ident))" by simp
  then show False by simp
qed

section \<open>The hierarchy builder\<close>

lemma find_index_from_shift:
  "find_index_from k P xs = map_option (\<lambda>i. i + k) (find_index_from 0 P xs)"
proof (induction xs arbitrary: k)
  case Nil
  show ?case by simp
next
  case (Cons x xs)
  from Cons [of "Suc k"] Cons [of "Suc 0"] show ?case
    by (auto simp: option.map_comp comp_def)
qed

lemma find_index_Cons:
  "find_index P (x # xs) = (if P x then Some 0 else map_option Suc (find_index P xs))"
  using find_index_from_shift [of "Suc 0" P xs] by (simp add: find_index_def)

lemma find_index_Nil [simp]: "find_index P [] = None"
  by (simp add: find_index_def)

lemma find_index_None_iff: "find_index P xs = None \<longleftrightarrow> (\<forall>x \<in> set xs. \<not> P x)"
  by (induction xs) (auto simp: find_index_Cons)

lemma find_index_Some_iff:
  "find_index P xs = Some j \<longleftrightarrow> j < length xs \<and> P (xs ! j) \<and> (\<forall>i < j. \<not> P (xs ! i))"
proof (induction xs arbitrary: j)
  case Nil
  show ?case by simp
next
  case (Cons x xs)
  show ?case
  proof (cases "P x")
    case True
    then show ?thesis by (auto simp: find_index_Cons)
  next
    case False
    show ?thesis
    proof (cases j)
      case 0
      with False show ?thesis by (auto simp: find_index_Cons)
    next
      case (Suc j')
      have "(\<forall>i < Suc j'. \<not> P ((x # xs) ! i)) \<longleftrightarrow> (\<forall>i < j'. \<not> P (xs ! i))"
        using False by (auto simp: less_Suc_eq_0_disj)
      with False Suc Cons [of j'] show ?thesis by (auto simp: find_index_Cons)
    qed
  qed
qed

lemma find_index_same_ids:
  fixes xs ys :: "DocEntry list"
  assumes "map e_id xs = map e_id ys"
  shows "find_index (\<lambda>e. e_id e = p) xs = find_index (\<lambda>e. e_id e = p) ys"
  using assms
proof (induction xs arbitrary: ys)
  case Nil
  then show ?case by simp
next
  case (Cons x xs)
  then obtain y ys' where "ys = y # ys'" "e_id x = e_id y" "map e_id xs = map e_id ys'"
    by (cases ys) auto
  with Cons.IH [of ys'] show ?case by (simp add: find_index_Cons)
qed

text \<open>The position found is the first entry that carries the identifier.\<close>

lemma first_position:
  fixes es :: "DocEntry list"
  assumes "j < length es"
  shows "find_index (\<lambda>e. e_id e = p) es = Some j \<longleftrightarrow>
         e_id (es ! j) = p \<and> p \<notin> e_id ` set (take j es)"
proof -
  have "p \<notin> e_id ` set (take j es) \<longleftrightarrow> (\<forall>i < j. e_id (es ! i) \<noteq> p)"
    using assms by (auto simp: set_conv_nth image_iff) 
  with assms show ?thesis by (auto simp: find_index_Some_iff)
qed

lemma length_linked_upto [simp]: "length (linked_upto k es) = length es"
  by (simp add: linked_upto_def)

lemma nth_linked_upto [simp]:
  "j < length es \<Longrightarrow> linked_upto k es ! j = linked_entry_upto k es j"
  by (simp add: linked_upto_def)

lemma e_id_linked_entry_upto [simp]: "e_id (linked_entry_upto k es j) = e_id (es ! j)"
  by (simp add: linked_entry_upto_def Let_def)

lemma ids_linked_upto: "map e_id (linked_upto k es) = map e_id es"
  by (rule nth_equalityI) simp_all

lemma children_of_Suc:
  assumes "k < length es"
  shows "children_of (take (Suc k) es) q =
         children_of (take k es) q @
           (if has_dot (e_id (es ! k)) \<and> drop_last_segment (e_id (es ! k)) = q
            then [e_id (es ! k)] else [])"
  using assms by (simp add: children_of_def take_Suc_conv_app_nth)

lemma linked_upto_0: "linked_upto 0 es = es"
  by (rule nth_equalityI) (simp_all add: linked_entry_upto_def Let_def children_of_def)

lemma linked_upto_length: "linked_upto (length es) es = linked es"
  by (rule nth_equalityI)
     (simp_all add: linked_def linked_entry_upto_def linked_entry_def Let_def)

text \<open>\<open>link_entry\<close> in terms of dotted identifiers.\<close>

lemma link_entry_dotted:
  "link_entry i es =
     (let entry = es ! i; ident = e_id entry in
      if has_dot ident then
        (case find_index (\<lambda>e. e_id e = drop_last_segment ident) es of
           None \<Rightarrow> es
         | Some j \<Rightarrow>
             (let es1 = es[i := entry\<lparr>e_parent := Some (drop_last_segment ident)\<rparr>];
                  parent = es1 ! j;
                  children = (case e_children parent of None \<Rightarrow> [] | Some cs \<Rightarrow> cs)
              in es1[j := parent\<lparr>e_children := Some (children @ [ident])\<rparr>]))
      else es)"
proof (cases "has_dot (e_id (es ! i))")
  case True
  then have "join ''.'' (butlast (split_js CHR ''.'' (e_id (es ! i))))
             = drop_last_segment (e_id (es ! i))"
    using parentId_of_eq [OF True] by (simp add: parentId_of_def)
  moreover from True have "1 < length (split_js CHR ''.'' (e_id (es ! i)))"
    by (simp add: has_dot_iff_parts)
  ultimately show ?thesis using True
    by (simp add: link_entry_def Let_def)
next
  case False
  then have "\<not> 1 < length (split_js CHR ''.'' (e_id (es ! i)))"
    by (simp add: has_dot_iff_parts)
  with False show ?thesis
    by (simp add: link_entry_def Let_def)
qed

lemma linked_entry_upto_Suc:
  assumes "k < length es" and "j < length es"
  shows "linked_entry_upto (Suc k) es j =
     (let e = linked_entry_upto k es j; ident = e_id (es ! k); p = drop_last_segment ident in
      e\<lparr>e_parent :=
           (if j = k \<and> has_dot ident \<and> p \<in> e_id ` set es then Some p else e_parent e),
         e_children :=
           (if has_dot ident \<and> e_id (es ! j) = p \<and> p \<notin> e_id ` set (take j es)
            then Some ((case e_children e of None \<Rightarrow> [] | Some cs \<Rightarrow> cs) @ [ident])
            else e_children e)\<rparr>)"
proof -
  define ident where "ident = e_id (es ! k)"
  define p where "p = drop_last_segment ident"
  define idj where "idj = e_id (es ! j)"
  define old where "old = (case e_children (es ! j) of None \<Rightarrow> [] | Some cs \<Rightarrow> cs)"
  define A where "A = (\<lambda>k. if j < k \<and> has_dot idj \<and> drop_last_segment idj \<in> e_id ` set es
                           then Some (drop_last_segment idj) else e_parent (es ! j))"
  define B where "B = (\<lambda>k. if idj \<notin> e_id ` set (take j es) \<and> children_of (take k es) idj \<noteq> []
                           then Some (old @ children_of (take k es) idj)
                           else e_children (es ! j))"
  have upto: "linked_entry_upto n es j = (es ! j)\<lparr>e_parent := A n, e_children := B n\<rparr>" for n
    by (simp add: linked_entry_upto_def Let_def A_def B_def idj_def old_def)
  have a: "A (Suc k) = (if j = k \<and> has_dot ident \<and> p \<in> e_id ` set es then Some p else A k)"
    by (auto simp: A_def ident_def p_def idj_def less_Suc_eq)
  have ch: "children_of (take (Suc k) es) idj =
            children_of (take k es) idj @ (if has_dot ident \<and> p = idj then [ident] else [])"
    unfolding ident_def p_def by (rule children_of_Suc [OF assms(1)])
  have b: "B (Suc k) =
             (if has_dot ident \<and> idj = p \<and> p \<notin> e_id ` set (take j es)
              then Some ((case B k of None \<Rightarrow> [] | Some cs \<Rightarrow> cs) @ [ident])
              else B k)"
    unfolding B_def ch old_def by (cases "e_children (es ! j)") auto
  have "linked_entry_upto (Suc k) es j =
        (es ! j)\<lparr>e_parent := A (Suc k), e_children := B (Suc k)\<rparr>"
    by (rule upto)
  also have "\<dots> = (linked_entry_upto k es j)
        \<lparr>e_parent := A (Suc k), e_children := B (Suc k)\<rparr>"
    by (simp add: upto)
  finally show ?thesis
    unfolding a b by (simp add: Let_def upto ident_def p_def idj_def)
qed

lemma linked_entry_upto_Suc_found:
  assumes "k < length es" and "j < length es"
  shows "linked_entry_upto (Suc k) es j =
     (let e = linked_entry_upto k es j; ident = e_id (es ! k); p = drop_last_segment ident;
          found = find_index (\<lambda>e. e_id e = p) es in
      e\<lparr>e_parent :=
           (if j = k \<and> has_dot ident \<and> found \<noteq> None then Some p else e_parent e),
         e_children :=
           (if has_dot ident \<and> found = Some j
            then Some ((case e_children e of None \<Rightarrow> [] | Some cs \<Rightarrow> cs) @ [ident])
            else e_children e)\<rparr>)"
proof -
  let ?p = "drop_last_segment (e_id (es ! k))"
  have "find_index (\<lambda>e. e_id e = ?p) es \<noteq> None \<longleftrightarrow> ?p \<in> e_id ` set es"
    by (force simp: find_index_None_iff image_iff)
  moreover have "find_index (\<lambda>e. e_id e = ?p) es = Some j \<longleftrightarrow>
      e_id (es ! j) = ?p \<and> ?p \<notin> e_id ` set (take j es)"
    by (rule first_position [OF assms(2)])
  ultimately show ?thesis
    unfolding linked_entry_upto_Suc [OF assms] Let_def by simp
qed

lemma length_link_entry [simp]: "length (link_entry i es) = length es"
  by (simp add: link_entry_def Let_def split: option.splits)

lemma link_entry_step:
  assumes k: "k < length es"
  shows "link_entry k (linked_upto k es) = linked_upto (Suc k) es"
proof (rule nth_equalityI)
  show "length (link_entry k (linked_upto k es)) = length (linked_upto (Suc k) es)"
    by simp
next
  fix j
  assume "j < length (link_entry k (linked_upto k es))"
  then have j: "j < length es" by simp
  let ?L = "linked_upto k es"
  let ?ident = "e_id (es ! k)"
  let ?p = "drop_last_segment ?ident"
  let ?found = "find_index (\<lambda>e. e_id e = ?p) es"
  have idk: "e_id (?L ! k) = ?ident"
    using k by simp
  have found: "find_index (\<lambda>e. e_id e = ?p) ?L = ?found"
    by (rule find_index_same_ids) (rule ids_linked_upto)
  have rhs: "linked_upto (Suc k) es ! j =
     (let e = ?L ! j in
      e\<lparr>e_parent :=
           (if j = k \<and> has_dot ?ident \<and> ?found \<noteq> None then Some ?p else e_parent e),
         e_children :=
           (if has_dot ?ident \<and> ?found = Some j
            then Some ((case e_children e of None \<Rightarrow> [] | Some cs \<Rightarrow> cs) @ [?ident])
            else e_children e)\<rparr>)"
    using j k by (simp add: linked_entry_upto_Suc_found Let_def)
  show "link_entry k ?L ! j = linked_upto (Suc k) es ! j"
  proof (cases "has_dot ?ident")
    case False
    then have "link_entry k ?L = ?L"
      by (simp add: link_entry_dotted Let_def idk)
    with False show ?thesis
      unfolding rhs by (simp add: Let_def)
  next
    case True
    show ?thesis
    proof (cases ?found)
      case None
      with True have "link_entry k ?L = ?L"
        by (simp add: link_entry_dotted Let_def idk found)
      with None show ?thesis
        unfolding rhs by (simp add: Let_def)
    next
      case (Some j0)
      then have j0: "j0 < length es" and pj0: "e_id (es ! j0) = ?p"
        by (simp_all add: find_index_Some_iff)
      from drop_last_segment_shorter [OF True] pj0 have ne: "j0 \<noteq> k"
        by auto
      let ?a = "(?L ! k)\<lparr>e_parent := Some ?p\<rparr>"
      let ?b = "(?L ! j0)\<lparr>e_children :=
                  Some ((case e_children (?L ! j0) of None \<Rightarrow> [] | Some cs \<Rightarrow> cs) @ [?ident])\<rparr>"
      from True Some ne have lhs: "link_entry k ?L = ?L[k := ?a, j0 := ?b]"
        by (simp add: link_entry_dotted Let_def idk found)
      show ?thesis
      proof (cases "j = j0")
        case True
        with j0 ne Some \<open>has_dot ?ident\<close> show ?thesis
          unfolding rhs lhs by (simp add: Let_def)
      next
        case False
        show ?thesis
        proof (cases "j = k")
          case True
          with k ne Some \<open>has_dot ?ident\<close> show ?thesis
            unfolding rhs lhs by (simp add: Let_def)
        next
          case nk: False
          with False Some show ?thesis
            unfolding rhs lhs by (simp add: Let_def)
        qed
      qed
    qed
  qed
qed

lemma length_fold_link_entry [simp]: "length (fold link_entry is es) = length es"
  by (induction "is" arbitrary: es) simp_all

lemma fold_link_entry_upto:
  "k \<le> length es \<Longrightarrow> fold link_entry [0..<k] es = linked_upto k es"
proof (induction k)
  case 0
  show ?case by (simp add: linked_upto_0)
next
  case (Suc k)
  then show ?case by (simp add: link_entry_step)
qed

lemma establishHierarchy_linked: "establishHierarchy es = linked es"
  by (simp add: establishHierarchy_def fold_link_entry_upto linked_upto_length)

lemma distinct_ids_first:
  fixes es :: "DocEntry list"
  assumes "distinct (map e_id es)" and "j < length es"
  shows "e_id (es ! j) \<notin> e_id ` set (take j es)"
proof
  assume "e_id (es ! j) \<in> e_id ` set (take j es)"
  then obtain i where i: "i < j" and eq: "e_id (es ! i) = e_id (es ! j)"
    using assms(2) by (auto simp: set_conv_nth)
  from i assms(2) eq have "map e_id es ! i = map e_id es ! j"
    by simp
  moreover from i assms(2) have "i < length (map e_id es)" "j < length (map e_id es)"
    by simp_all
  ultimately have "i = j"
    using assms(1) by (simp only: nth_eq_iff_index_eq)
  with i show False by simp
qed

lemma filter_unique:
  assumes "distinct xs" and "x \<in> set xs" and "\<And>y. y \<in> set xs \<Longrightarrow> P y \<longleftrightarrow> y = x"
  shows "filter P xs = [x]"
  using assms
proof (induction xs)
  case Nil
  then show ?case by simp
next
  case (Cons a xs)
  show ?case
  proof (cases "a = x")
    case True
    with Cons.prems have "\<And>y. y \<in> set xs \<Longrightarrow> \<not> P y" by auto
    then have "filter P xs = []" by (simp add: filter_empty_conv)
    with True Cons.prems(3) [of a] show ?thesis by simp
  next
    case False
    with Cons.prems have "x \<in> set xs" "distinct xs" "\<not> P a" by auto
    with Cons.IH Cons.prems(3) show ?thesis by simp
  qed
qed

lemma children_of_ids:
  "children_of es q =
   filter (\<lambda>i. has_dot i \<and> drop_last_segment i = q) (map e_id es)"
  by (simp add: children_of_def filter_map comp_def)

text \<open>The identifiers of the example.\<close>

lemma example_ids:
  "\<not> has_dot ''a''" "\<not> has_dot ''x''" "has_dot ''a.b''" "has_dot ''a.b.c''"
  "drop_last_segment ''a.b'' = ''a''" "drop_last_segment ''a.b.c'' = ''a.b''"
  by (simp_all add: has_dot_def drop_last_segment_def)

lemma example_parent_tests:
  assumes "y \<in> {''a'', ''a.b'', ''a.b.c'', ''x''}"
  shows "has_dot y \<and> drop_last_segment y = ''a'' \<longleftrightarrow> y = ''a.b''"
    and "has_dot y \<and> drop_last_segment y = ''a.b'' \<longleftrightarrow> y = ''a.b.c''"
    and "\<not> (has_dot y \<and> drop_last_segment y = ''a.b.c'')"
    and "\<not> (has_dot y \<and> drop_last_segment y = ''x'')"
  using assms by (elim insertE emptyE; simp add: example_ids)+

lemma example_children:
  fixes es :: "DocEntry list"
  assumes d: "distinct (map e_id es)"
    and s: "set (map e_id es) = {''a'', ''a.b'', ''a.b.c'', ''x''}"
  shows "children_of es ''a'' = [''a.b'']" "children_of es ''a.b'' = [''a.b.c'']"
    "children_of es ''a.b.c'' = []" "children_of es ''x'' = []"
proof -
  have m: "''a.b'' \<in> set (map e_id es)" "''a.b.c'' \<in> set (map e_id es)"
    unfolding s by simp_all
  have t: "y \<in> {''a'', ''a.b'', ''a.b.c'', ''x''}" if "y \<in> set (map e_id es)" for y
    using that unfolding s .
  have "filter (\<lambda>i. has_dot i \<and> drop_last_segment i = ''a'') (map e_id es) = [''a.b'']"
    using d m(1) by (rule filter_unique) (rule example_parent_tests(1) [OF t])
  then show "children_of es ''a'' = [''a.b'']"
    by (simp only: children_of_ids)
  have "filter (\<lambda>i. has_dot i \<and> drop_last_segment i = ''a.b'') (map e_id es) = [''a.b.c'']"
    using d m(2) by (rule filter_unique) (rule example_parent_tests(2) [OF t])
  then show "children_of es ''a.b'' = [''a.b.c'']"
    by (simp only: children_of_ids)
  have "\<forall>i \<in> set (map e_id es). \<not> (has_dot i \<and> drop_last_segment i = ''a.b.c'')"
    using example_parent_tests(3) [OF t] by blast
  then show "children_of es ''a.b.c'' = []"
    unfolding children_of_ids filter_empty_conv .
  have "\<forall>i \<in> set (map e_id es). \<not> (has_dot i \<and> drop_last_segment i = ''x'')"
    using example_parent_tests(4) [OF t] by blast
  then show "children_of es ''x'' = []"
    unfolding children_of_ids filter_empty_conv .
qed

lemma example_linked:
  fixes es :: "DocEntry list"
  assumes d: "distinct (map e_id es)"
    and s: "set (map e_id es) = {''a'', ''a.b'', ''a.b.c'', ''x''}"
    and f: "\<forall>e \<in> set es. e_parent e = None \<and> e_children e = None"
    and e: "e \<in> set (linked es)"
  shows "(e_id e = ''a.b.c'' \<longrightarrow> e_parent e = Some ''a.b'' \<and> e_children e = None) \<and>
         (e_id e = ''a.b'' \<longrightarrow> e_parent e = Some ''a'' \<and> e_children e = Some [''a.b.c'']) \<and>
         (e_id e = ''a'' \<longrightarrow> e_parent e = None \<and> e_children e = Some [''a.b'']) \<and>
         (e_id e = ''x'' \<longrightarrow> e_parent e = None \<and> e_children e = None)"
proof -
  from e obtain j where j: "j < length es" and ej: "e = linked_entry es j"
    by (auto simp: linked_def)
  from j f have fresh: "e_parent (es ! j) = None" "e_children (es ! j) = None"
    by simp_all
  note first = distinct_ids_first [OF d j]
  from s have ids: "e_id ` set es = {''a'', ''a.b'', ''a.b.c'', ''x''}"
    by simp
  note ch = example_children [OF d s]
  have id: "e_id e = e_id (es ! j)"
    by (simp add: ej linked_entry_def Let_def)
  have p: "e_parent e =
      (if has_dot (e_id e) \<and> drop_last_segment (e_id e) \<in> e_id ` set es
       then Some (drop_last_segment (e_id e)) else None)"
    by (simp add: ej linked_entry_def Let_def fresh)
  have c: "e_children e =
      (if children_of es (e_id e) \<noteq> [] then Some (children_of es (e_id e)) else None)"
    using first by (simp add: ej linked_entry_def Let_def fresh)
  show ?thesis
    unfolding p c by (auto simp: ids ch example_ids)
qed

text \<open>
  C3. \<open>establishHierarchy\<close> returns the linked entry list. An identifier has at least two
  dot-delimited parts exactly when it contains a dot, and its parent identifier is then the
  identifier without its last segment and the dot before it. In the linked list an entry with a
  dotted identifier has that parent identifier as \<open>parent\<close> exactly when some entry carries
  it; the first entry that carries an identifier has the identifiers of its children, in the
  order of the list, appended to its \<open>children\<close>; every other field, and every other entry's
  \<open>parent\<close> and \<open>children\<close>, is as before. For entries fresh from extraction with the
  identifiers a, a.b, a.b.c and x, in any order: a.b.c has parent a.b, a.b has parent a and the
  child a.b.c, a has no parent and exactly the child a.b, and x has neither.
\<close>

theorem establishHierarchy_links:
  fixes es :: "DocEntry list"
  shows "establishHierarchy es = linked es \<and>
         (has_dot ident \<longleftrightarrow> 1 < length (split_js CHR ''.'' ident)) \<and>
         (has_dot ident \<longrightarrow>
            parentId_of ident = drop_last_segment ident \<and>
            ident = drop_last_segment ident @ ''.'' @ last (split_js CHR ''.'' ident) \<and>
            \<not> has_dot (last (split_js CHR ''.'' ident))) \<and>
         (distinct (map e_id es) \<and>
          set (map e_id es) = {''a'', ''a.b'', ''a.b.c'', ''x''} \<and>
          (\<forall>e \<in> set es. e_parent e = None \<and> e_children e = None) \<longrightarrow>
            (\<forall>e \<in> set (establishHierarchy es).
               (e_id e = ''a.b.c'' \<longrightarrow> e_parent e = Some ''a.b'' \<and> e_children e = None) \<and>
               (e_id e = ''a.b'' \<longrightarrow> e_parent e = Some ''a'' \<and> e_children e = Some [''a.b.c'']) \<and>
               (e_id e = ''a'' \<longrightarrow> e_parent e = None \<and> e_children e = Some [''a.b'']) \<and>
               (e_id e = ''x'' \<longrightarrow> e_parent e = None \<and> e_children e = None)))"
proof (intro conjI impI ballI)
  show "establishHierarchy es = linked es"
    by (rule establishHierarchy_linked)
  show "has_dot ident \<longleftrightarrow> 1 < length (split_js CHR ''.'' ident)"
    by (rule has_dot_iff_parts)
next
  assume h: "has_dot ident"
  then show "parentId_of ident = drop_last_segment ident"
    by (rule parentId_of_eq)
  with dotted_decomposition [OF h]
  show "ident = drop_last_segment ident @ ''.'' @ last (split_js CHR ''.'' ident)"
    and "\<not> has_dot (last (split_js CHR ''.'' ident))"
    by simp_all
next
  fix e
  assume a: "distinct (map e_id es) \<and>
          set (map e_id es) = {''a'', ''a.b'', ''a.b.c'', ''x''} \<and>
          (\<forall>e \<in> set es. e_parent e = None \<and> e_children e = None)"
    and "e \<in> set (establishHierarchy es)"
  then have e: "e \<in> set (linked es)"
    by (simp add: establishHierarchy_linked)
  from a have d: "distinct (map e_id es)"
    and s: "set (map e_id es) = {''a'', ''a.b'', ''a.b.c'', ''x''}"
    and f: "\<forall>e \<in> set es. e_parent e = None \<and> e_children e = None"
    by blast+
  note R = example_linked [OF d s f e]
  from R show "e_id e = ''a.b.c'' \<Longrightarrow> e_parent e = Some ''a.b''"
    and "e_id e = ''a.b.c'' \<Longrightarrow> e_children e = None"
    and "e_id e = ''a.b'' \<Longrightarrow> e_parent e = Some ''a''"
    and "e_id e = ''a.b'' \<Longrightarrow> e_children e = Some [''a.b.c'']"
    and "e_id e = ''a'' \<Longrightarrow> e_parent e = None"
    and "e_id e = ''a'' \<Longrightarrow> e_children e = Some [''a.b'']"
    and "e_id e = ''x'' \<Longrightarrow> e_parent e = None"
    and "e_id e = ''x'' \<Longrightarrow> e_children e = None"
    by blast+
qed

theorem establishHierarchy_links_witness:
  "distinct (map e_id four_entries) \<and>
   set (map e_id four_entries) = {''a'', ''a.b'', ''a.b.c'', ''x''} \<and>
   establishHierarchy four_entries =
     [(named ''a.b.c'')\<lparr>e_parent := Some ''a.b''\<rparr>,
      named ''x'',
      (named ''a'')\<lparr>e_children := Some [''a.b'']\<rparr>,
      (named ''a.b'')\<lparr>e_parent := Some ''a'', e_children := Some [''a.b.c'']\<rparr>] \<and>
   has_dot ''a.b.c'' \<and> parentId_of ''a.b.c'' = ''a.b'' \<and>
   e_parent (establishHierarchy four_entries ! 0) = Some ''a.b'' \<and>
   e_children (establishHierarchy four_entries ! 2) = Some [''a.b'']"
proof -
  have d: "distinct (map e_id four_entries)"
    by code_simp
  have s: "set (map e_id four_entries) = {''a'', ''a.b'', ''a.b.c'', ''x''}"
    by code_simp
  have f: "\<forall>e \<in> set four_entries. e_parent e = None \<and> e_children e = None"
    by (simp add: four_entries_def named_def entry_untitled_def)
  have r: "establishHierarchy four_entries =
     [(named ''a.b.c'')\<lparr>e_parent := Some ''a.b''\<rparr>,
      named ''x'',
      (named ''a'')\<lparr>e_children := Some [''a.b'']\<rparr>,
      (named ''a.b'')\<lparr>e_parent := Some ''a'', e_children := Some [''a.b.c'']\<rparr>]"
    by code_simp
  have h: "has_dot ''a.b.c''"
    by code_simp
  have v: "drop_last_segment ''a.b.c'' = ''a.b''"
    by code_simp
  note T = establishHierarchy_links [of four_entries "''a.b.c''"]
  from T h have "parentId_of ''a.b.c'' = drop_last_segment ''a.b.c''"
    by blast
  with v have p: "parentId_of ''a.b.c'' = ''a.b''"
    by simp
  from T d s f have B: "\<forall>e \<in> set (establishHierarchy four_entries).
      (e_id e = ''a.b.c'' \<longrightarrow> e_parent e = Some ''a.b'' \<and> e_children e = None) \<and>
      (e_id e = ''a.b'' \<longrightarrow> e_parent e = Some ''a'' \<and> e_children e = Some [''a.b.c'']) \<and>
      (e_id e = ''a'' \<longrightarrow> e_parent e = None \<and> e_children e = Some [''a.b'']) \<and>
      (e_id e = ''x'' \<longrightarrow> e_parent e = None \<and> e_children e = None)"
    by blast
  have m: "establishHierarchy four_entries ! 0 \<in> set (establishHierarchy four_entries)"
    "establishHierarchy four_entries ! 2 \<in> set (establishHierarchy four_entries)"
    by (simp_all add: r)
  have i: "e_id (establishHierarchy four_entries ! 0) = ''a.b.c''"
    "e_id (establishHierarchy four_entries ! 2) = ''a''"
    by (simp_all add: r named_def)
  from B m(1) i(1) have c0: "e_parent (establishHierarchy four_entries ! 0) = Some ''a.b''"
    by blast
  from B m(2) i(2) have c2: "e_children (establishHierarchy four_entries ! 2) = Some [''a.b'']"
    by blast
  from d s r h p c0 c2 show ?thesis by (intro conjI)
qed

end
